theory Spec2Isabelle
  imports Complex_Main "HOL-Library.Word"
begin

text \<open>
  A contact form relay: an HTTP handler that parses a submission, validates it, requests
  a token from the identity provider and posts one mail to the Microsoft Graph API. The
  repository holds three versions of the handler: \<^verbatim>\<open>src/api/contact/index.js\<close>, the same
  handler with request logging, and one written for \<^verbatim>\<open>@azure/functions\<close> and
  \<^verbatim>\<open>@azure/msal-node\<close>. All three are embedded here. Strings are sequences of UTF-16
  code units, the values of a parsed body are JavaScript values, every call that can
  throw returns an error as a value, and a run of a handler gives the list of its effects.
\<close>

section \<open>JavaScript strings\<close>

text \<open>
  A JavaScript string is a sequence of UTF-16 code units; \<open>length\<close> counts code units,
  as \<^verbatim>\<open>message.length\<close> does. String literals of the source are written with \<open>lit\<close>.
\<close>

type_synonym jschar = "16 word"
type_synonym jsstring = "jschar list"

definition ch :: "char \<Rightarrow> jschar" where
  "ch c = of_char c"

definition lit :: "string \<Rightarrow> jsstring" where
  "lit s = map ch s"

text \<open>\<^verbatim>\<open>s.startsWith(p)\<close> and \<^verbatim>\<open>s.includes(p)\<close>.\<close>

fun startsWith :: "jsstring \<Rightarrow> jsstring \<Rightarrow> bool" where
  "startsWith s [] = True"
| "startsWith [] (p # ps) = False"
| "startsWith (c # s) (p # ps) = (c = p \<and> startsWith s ps)"

fun str_includes :: "jsstring \<Rightarrow> jsstring \<Rightarrow> bool" where
  "str_includes [] p = (p = [])"
| "str_includes (c # s) p = (startsWith (c # s) p \<or> str_includes s p)"

text \<open>
  \<^verbatim>\<open>String.prototype.trim\<close> removes WhiteSpace and LineTerminator code units from both
  ends (ECMAScript: TAB, VT, FF, SP, NBSP, ZWNBSP, the Unicode space separators, LF, CR,
  LS, PS).
\<close>

definition isWhiteSpace :: "jschar \<Rightarrow> bool" where
  "isWhiteSpace c \<longleftrightarrow>
     c \<in> {0x0009, 0x000A, 0x000B, 0x000C, 0x000D, 0x0020, 0x00A0, 0x1680,
          0x2000, 0x2001, 0x2002, 0x2003, 0x2004, 0x2005, 0x2006, 0x2007,
          0x2008, 0x2009, 0x200A, 0x2028, 0x2029, 0x202F, 0x205F, 0x3000, 0xFEFF}"

definition trim :: "jsstring \<Rightarrow> jsstring" where
  "trim s = rev (dropWhile isWhiteSpace (rev (dropWhile isWhiteSpace s)))"

text \<open>
  \<^verbatim>\<open>s.replaceAll(p, r)\<close> for a pattern \<open>p\<close> of one code unit and a replacement without
  \<^verbatim>\<open>$\<close> patterns, the only way \<^verbatim>\<open>esc\<close> calls it.
\<close>

fun replaceAll :: "jsstring \<Rightarrow> jschar \<Rightarrow> jsstring \<Rightarrow> jsstring" where
  "replaceAll [] p r = []"
| "replaceAll (c # s) p r = (if c = p then r else [c]) @ replaceAll s p r"

text \<open>
  \<^verbatim>\<open>
  function esc(s = "") {
      return String(s)
          .replaceAll("&", "&amp;")
          .replaceAll("<", "&lt;")
          .replaceAll(">", "&gt;")
          .replaceAll('"', "&quot;");
  }
  \<close>
  The handlers call it on results of \<^verbatim>\<open>trim()\<close> only, which are strings.
\<close>

definition esc :: "jsstring \<Rightarrow> jsstring" where
  \<open>esc s =
     replaceAll (replaceAll (replaceAll (replaceAll s
       (ch CHR ''&'') (lit ''&amp;''))
       (ch CHR ''<'') (lit ''&lt;''))
       (ch CHR ''>'') (lit ''&gt;''))
       (ch CHR 0x22) (lit ''&quot;'')\<close>

text \<open>The replacement of one code unit by the four passes together.\<close>

definition esc_unit :: "jschar \<Rightarrow> jsstring" where
  \<open>esc_unit c =
     (if c = ch CHR ''&'' then lit ''&amp;''
      else if c = ch CHR ''<'' then lit ''&lt;''
      else if c = ch CHR ''>'' then lit ''&gt;''
      else if c = ch CHR 0x22 then lit ''&quot;''
      else [c])\<close>

section \<open>JavaScript values\<close>

text \<open>
  The values a parsed body can hold. A number is a double: finite (its rational value,
  both zeros as 0), an infinity or NaN. An object is the list of its own properties.
\<close>

datatype jsnum = JFin rat | JPosInf | JNegInf | JNaN

datatype jsval =
    JUndefined
  | JNull
  | JBool bool
  | JNumber jsnum
  | JString jsstring
  | JArray "jsval list"
  | JObject "(jsstring \<times> jsval) list"

datatype error =
    TypeError | SyntaxError | URIError | CredentialError | TokenError
  | NoTokenError | FetchError | BodyReadError | SendFailedError

text \<open>ToBoolean: what \<^verbatim>\<open>if (v)\<close>, \<^verbatim>\<open>!v\<close> and \<^verbatim>\<open>v || d\<close> test.\<close>

fun truthy :: "jsval \<Rightarrow> bool" where
  "truthy JUndefined = False"
| "truthy JNull = False"
| "truthy (JBool b) = b"
| "truthy (JNumber n) = (case n of JFin q \<Rightarrow> q \<noteq> 0 | JNaN \<Rightarrow> False | _ \<Rightarrow> True)"
| "truthy (JString s) = (s \<noteq> [])"
| "truthy (JArray vs) = True"
| "truthy (JObject ps) = True"

fun typeof :: "jsval \<Rightarrow> jsstring" where
  "typeof JUndefined = lit ''undefined''"
| "typeof JNull = lit ''object''"
| "typeof (JBool b) = lit ''boolean''"
| "typeof (JNumber n) = lit ''number''"
| "typeof (JString s) = lit ''string''"
| "typeof (JArray vs) = lit ''object''"
| "typeof (JObject ps) = lit ''object''"

text \<open>
  Property read \<^verbatim>\<open>v.k\<close>: reading from \<^verbatim>\<open>undefined\<close> or \<^verbatim>\<open>null\<close> throws a
  TypeError, an object gives its own property, everything else \<^verbatim>\<open>undefined\<close>.
  Properties of prototypes are left out: none of the names the handlers read
  (\<^verbatim>\<open>website\<close>, \<^verbatim>\<open>name\<close>, \<^verbatim>\<open>email\<close>, \<^verbatim>\<open>phone\<close>, \<^verbatim>\<open>message\<close>) or write is one.
\<close>

fun get :: "jsval \<Rightarrow> jsstring \<Rightarrow> error + jsval" where
  "get JUndefined k = Inl TypeError"
| "get JNull k = Inl TypeError"
| "get (JObject ps) k = Inr (case map_of ps k of Some v \<Rightarrow> v | None \<Rightarrow> JUndefined)"
| "get v k = Inr JUndefined"

text \<open>\<^verbatim>\<open>a || b\<close> on values, and on a string that may be \<^verbatim>\<open>undefined\<close>.\<close>

definition js_or :: "jsval \<Rightarrow> jsval \<Rightarrow> jsval" where
  "js_or a b = (if truthy a then a else b)"

definition or_str :: "jsstring option \<Rightarrow> jsstring \<Rightarrow> jsstring" where
  "or_str a b = (case a of None \<Rightarrow> b | Some s \<Rightarrow> if s = [] then b else s)"

text \<open>
  The method call \<^verbatim>\<open>v.trim()\<close>: only a string has a callable \<^verbatim>\<open>trim\<close>; on any other
  value the call throws a TypeError (\<^verbatim>\<open>trim\<close> is \<^verbatim>\<open>undefined\<close>, or a JSON value that
  is not a function).
\<close>

fun trim_call :: "jsval \<Rightarrow> error + jsstring" where
  "trim_call (JString s) = Inr (trim s)"
| "trim_call v = Inl TypeError"

text \<open>\<^verbatim>\<open>(data.k || "").trim()\<close>\<close>

definition trimmed :: "jsval \<Rightarrow> jsstring \<Rightarrow> error + jsstring" where
  "trimmed data k =
     (case get data k of
        Inl e \<Rightarrow> Inl e
      | Inr v \<Rightarrow> trim_call (js_or v (JString [])))"

text \<open>
  \<^verbatim>\<open>Object.fromEntries(params.entries())\<close>: a later pair with the same key replaces
  the value of the earlier one.
\<close>

fun set_prop :: "jsstring \<Rightarrow> jsval \<Rightarrow> (jsstring \<times> jsval) list \<Rightarrow> (jsstring \<times> jsval) list" where
  "set_prop k v [] = [(k, v)]"
| "set_prop k v ((k', v') # ps) =
     (if k = k' then (k, v) # ps else (k', v') # set_prop k v ps)"

definition fromEntries :: "(jsstring \<times> jsstring) list \<Rightarrow> jsval" where
  "fromEntries es = JObject (foldl (\<lambda>ps (k, v). set_prop k (JString v) ps) [] es)"

section \<open>The platform and the outside world\<close>

text \<open>
  What the handlers use and do not define: library functions, the process environment,
  the identity provider and the mail API. They are parameters of the model, so that every
  statement holds whatever they return. A call that can throw (or a promise that can
  reject) returns \<open>Inl\<close> of the error; an awaited call is taken to settle, the source
  sets no timeout of its own.
  \<^item> \<open>toLowerCase\<close>, \<open>URLSearchParams\<close> (the pairs of \<^verbatim>\<open>params.entries()\<close>, in order),
    \<open>JSON_parse\<close>, \<open>JSON_stringify\<close>, \<open>encodeURIComponent\<close> (a URIError on a lone
    surrogate), \<open>querystring_parse\<close>: the library functions of these names;
  \<^item> \<open>env\<close>: \<^verbatim>\<open>process.env\<close>;
  \<^item> \<open>ClientSecretCredential\<close>: the constructor of \<^verbatim>\<open>@azure/identity\<close>, which can reject
    its arguments; \<open>getToken\<close>: the method of the credential, whose value is
    \<^verbatim>\<open>AccessToken | null\<close>;
  \<^item> \<open>acquireTokenByClientCredential\<close>: the method of the client application
    \<^verbatim>\<open>cca\<close> that the third handler's module builds when it loads, whose value is
    \<^verbatim>\<open>AuthenticationResult | null\<close>;
  \<^item> \<open>fetch\<close>: the global \<^verbatim>\<open>fetch\<close>, from the URL and the options to the response, of
    which the handlers read \<^verbatim>\<open>status\<close>, \<^verbatim>\<open>ok\<close> and \<^verbatim>\<open>text()\<close>.
\<close>

datatype credential = Credential jsval jsval jsval

record access_token =
  token :: jsstring

record auth_result =
  accessToken :: jsstring

record fetch_response =
  resp_status :: nat
  resp_text :: "error + jsstring"

text \<open>
  A value of the object \<^verbatim>\<open>querystring.parse\<close> returns: a string, or an array of
  strings when the key occurs more than once.
\<close>

datatype qs_value = QString jsstring | QArray "jsstring list"

text \<open>\<^verbatim>\<open>resp.ok\<close> of the Fetch standard: the status is in the range 200 to 299.\<close>

definition resp_ok :: "fetch_response \<Rightarrow> bool" where
  "resp_ok r \<longleftrightarrow> 200 \<le> resp_status r \<and> resp_status r \<le> 299"

record world =
  toLowerCase :: "jsstring \<Rightarrow> jsstring"
  URLSearchParams :: "jsstring \<Rightarrow> (jsstring \<times> jsstring) list"
  JSON_parse :: "jsstring \<Rightarrow> error + jsval"
  JSON_stringify :: "jsval \<Rightarrow> jsstring"
  encodeURIComponent :: "jsval \<Rightarrow> error + jsstring"
  env :: "jsstring \<rightharpoonup> jsstring"
  ClientSecretCredential :: "jsval \<Rightarrow> jsval \<Rightarrow> jsval \<Rightarrow> error + credential"
  getToken :: "credential \<Rightarrow> jsstring \<Rightarrow> error + access_token option"
  fetch :: "jsstring \<Rightarrow> jsval \<Rightarrow> error + fetch_response"
  querystring_parse :: "jsstring \<Rightarrow> (jsstring \<times> qs_value) list"
  acquireTokenByClientCredential :: "jsstring list \<Rightarrow> error + auth_result option"

text \<open>\<^verbatim>\<open>process.env.K\<close>: the string, or \<^verbatim>\<open>undefined\<close> when the variable is unset.\<close>

definition process_env :: "world \<Rightarrow> jsstring \<Rightarrow> jsval" where
  "process_env w k = (case env w k of None \<Rightarrow> JUndefined | Some s \<Rightarrow> JString s)"

text \<open>
  The request as the handlers of \<^verbatim>\<open>index.js\<close> read it: \<^verbatim>\<open>req.headers\<close>,
  \<^verbatim>\<open>req.body\<close> and \<^verbatim>\<open>req.rawBody\<close>.
\<close>

record request =
  headers :: "jsstring \<rightharpoonup> jsstring"
  body :: jsval
  rawBody :: "jsstring option"

section \<open>Effects\<close>

text \<open>
  What a run does, in order: log calls (\<^verbatim>\<open>context.log\<close>, \<^verbatim>\<open>context.log.warn\<close>,
  \<^verbatim>\<open>context.log.error\<close>; the logged text is left out), the token request
  (\<^verbatim>\<open>credential.getToken\<close>, or \<^verbatim>\<open>cca.acquireTokenByClientCredential\<close>), the HTTP call
  to the mail API, and every assignment to \<^verbatim>\<open>context.res\<close>.
\<close>

datatype loglevel = LogInfo | LogWarn | LogError

datatype event =
    Log loglevel
  | GetToken credential jsstring
  | AcquireToken "jsstring list"
  | Fetch jsstring jsval
  | SetRes jsval

text \<open>
  A computation gives the events it produced and either the error it threw or its value.
\<close>

type_synonym 'a comp = "event list \<times> (error + 'a)"

definition returns :: "'a \<Rightarrow> 'a comp" where
  "returns x = ([], Inr x)"

definition throws :: "error \<Rightarrow> 'a comp" where
  "throws e = ([], Inl e)"

definition lift :: "error + 'a \<Rightarrow> 'a comp" where
  "lift r = ([], r)"

definition emit :: "event \<Rightarrow> unit comp" where
  "emit ev = ([ev], Inr ())"

definition call :: "event \<Rightarrow> error + 'a \<Rightarrow> 'a comp" where
  "call ev r = ([ev], r)"

definition and_then :: "'a comp \<Rightarrow> ('a \<Rightarrow> 'b comp) \<Rightarrow> 'b comp" where
  "and_then m k =
     (case m of
        (t, Inl e) \<Rightarrow> (t, Inl e)
      | (t, Inr x) \<Rightarrow> (case k x of (t', r) \<Rightarrow> (t @ t', r)))"

definition try_catch :: "'a comp \<Rightarrow> (error \<Rightarrow> 'a comp) \<Rightarrow> 'a comp" where
  "try_catch m h =
     (case m of
        (t, Inl e) \<Rightarrow> (case h e of (t', r) \<Rightarrow> (t @ t', r))
      | (t, Inr x) \<Rightarrow> (t, Inr x))"

section \<open>The handler of \<^verbatim>\<open>src/api/contact/index.js\<close>\<close>

text \<open>
  \<^verbatim>\<open>
  function parseBody(req) {
      const ctype = (req.headers["content-type"] || "").toLowerCase();
      if (ctype.includes("application/x-www-form-urlencoded")) {
          const params = new URLSearchParams(typeof req.body === "string" ? req.body : "");
          return Object.fromEntries(params.entries());
      }
      if (typeof req.body === "object" && req.body) return req.body;
      try {
          return JSON.parse(req.rawBody || "{}");
      } catch {
          return {};
      }
  }
  \<close>
\<close>

definition parseBody :: "world \<Rightarrow> request \<Rightarrow> jsval" where
  "parseBody w req =
     (let ctype = toLowerCase w (or_str (headers req (lit ''content-type'')) (lit '''')) in
      if str_includes ctype (lit ''application/x-www-form-urlencoded'') then
        fromEntries (URLSearchParams w
          (if typeof (body req) = lit ''string''
           then (case body req of JString s \<Rightarrow> s | _ \<Rightarrow> lit '''')
           else lit ''''))
      else if typeof (body req) = lit ''object'' \<and> truthy (body req) then body req
      else
        (case JSON_parse w (or_str (rawBody req) (lit ''{}'')) of
           Inr v \<Rightarrow> v
         | Inl e \<Rightarrow> JObject []))"

text \<open>The object literal \<^verbatim>\<open>{ status: s, jsonBody: { ok: b, message: m } }\<close>.\<close>

definition res :: "nat \<Rightarrow> bool \<Rightarrow> jsstring \<Rightarrow> jsval" where
  "res s b m =
     JObject [(lit ''status'', JNumber (JFin (of_nat s))),
              (lit ''jsonBody'', JObject [(lit ''ok'', JBool b), (lit ''message'', JString m)])]"

text \<open>
  The template literal \<^verbatim>\<open>html\<close> (its line breaks and indentation are part of the
  string; the dash of the heading is U+2014).
\<close>

definition html_body :: "jsstring \<Rightarrow> jsstring \<Rightarrow> jsstring \<Rightarrow> jsstring \<Rightarrow> jsstring" where
  \<open>html_body name email phone message =
     lit ''\<newline>      <div style="font-family:Segoe UI,Arial,sans-serif;font-size:14px;">\<newline>''
     @ lit ''        <h2 style="margin:0 0 8px;">New Contact '' @ [0x2014]
     @ lit '' Schneider Drafting Services</h2>\<newline>''
     @ lit ''        <p><strong>Name:</strong> '' @ esc name @ lit ''</p>\<newline>''
     @ lit ''        <p><strong>Email:</strong> '' @ esc email @ lit ''</p>\<newline>''
     @ lit ''        ''
     @ (if phone \<noteq> [] then lit ''<p><strong>Phone:</strong> '' @ esc phone @ lit ''</p>''
        else lit '''')
     @ lit ''\<newline>''
     @ lit ''        <hr style="border:none;border-top:1px solid #ddd;margin:12px 0;" />\<newline>''
     @ lit ''        <p style="white-space:pre-wrap;">'' @ esc message @ lit ''</p>\<newline>''
     @ lit ''      </div>\<newline>''
     @ lit ''    ''\<close>

text \<open>
  \<^verbatim>\<open>
  const mail = {
      message: {
          subject: `SDS Contact: ${name} <${email}>`,
          body: { contentType: "HTML", content: html },
          toRecipients: [{ emailAddress: { address: toAddress } }],
          replyTo: [{ emailAddress: { address: email, name } }]
      },
      saveToSentItems: true
  };
  \<close>
\<close>

definition mail_payload :: "jsstring \<Rightarrow> jsstring \<Rightarrow> jsstring \<Rightarrow> jsval \<Rightarrow> jsval" where
  "mail_payload name email html toAddress =
     JObject
       [(lit ''message'', JObject
          [(lit ''subject'',
              JString (lit ''SDS Contact: '' @ name @ lit '' <'' @ email @ lit ''>'')),
           (lit ''body'', JObject
              [(lit ''contentType'', JString (lit ''HTML'')),
               (lit ''content'', JString html)]),
           (lit ''toRecipients'', JArray
              [JObject [(lit ''emailAddress'', JObject [(lit ''address'', toAddress)])]]),
           (lit ''replyTo'', JArray
              [JObject [(lit ''emailAddress'', JObject
                 [(lit ''address'', JString email), (lit ''name'', JString name)])]])]),
        (lit ''saveToSentItems'', JBool True)]"

text \<open>The second argument of \<^verbatim>\<open>fetch\<close>.\<close>

definition fetch_init :: "jsstring \<Rightarrow> jsstring \<Rightarrow> jsval" where
  "fetch_init bearer payload =
     JObject
       [(lit ''method'', JString (lit ''POST'')),
        (lit ''headers'', JObject
          [(lit ''Authorization'', JString (lit ''Bearer '' @ bearer)),
           (lit ''Content-Type'', JString (lit ''application/json''))]),
        (lit ''body'', JString payload)]"

definition sendMail_url :: "jsstring \<Rightarrow> jsstring" where
  "sendMail_url user = lit ''https://graph.microsoft.com/v1.0/users/'' @ user @ lit ''/sendMail''"

definition graph_scope :: jsstring where
  "graph_scope = lit ''https://graph.microsoft.com/.default''"

text \<open>
  The body of the \<^verbatim>\<open>try\<close> block of the default export. Its value is what the
  function returns: the response object where the source writes
  \<^verbatim>\<open>return context.res = ...\<close>, \<^verbatim>\<open>undefined\<close> at the end of the block.
\<close>

definition handler_try :: "world \<Rightarrow> request \<Rightarrow> jsval comp" where
  "handler_try w req =
     (let data = parseBody w req in
      and_then (lift (get data (lit ''website''))) (\<lambda>website.
      if truthy website then
        and_then (emit (SetRes (res 200 True (lit ''Thanks!'')))) (\<lambda>_.
        returns (res 200 True (lit ''Thanks!'')))
      else
      and_then (lift (trimmed data (lit ''name''))) (\<lambda>name.
      and_then (lift (trimmed data (lit ''email''))) (\<lambda>email.
      and_then (lift (trimmed data (lit ''phone''))) (\<lambda>phone.
      and_then (lift (trimmed data (lit ''message''))) (\<lambda>message.
      if name = [] \<or> email = [] \<or> message = [] then
        and_then (emit (SetRes (res 400 False (lit ''Please include name, email, and message.'')))) (\<lambda>_.
        returns (res 400 False (lit ''Please include name, email, and message.'')))
      else if length message > 5000 then
        and_then (emit (SetRes (res 400 False (lit ''Message is too long.'')))) (\<lambda>_.
        returns (res 400 False (lit ''Message is too long.'')))
      else
      (let tenantId = process_env w (lit ''TENANT_ID'');
           clientId = process_env w (lit ''CLIENT_ID'');
           clientSecret = process_env w (lit ''CLIENT_SECRET'');
           fromUser = process_env w (lit ''MAILBOX_ADDRESS'');
           toAddress = js_or (process_env w (lit ''MAILBOX_ADDRESS''))
                             (JString (lit ''jon@schneiderdrafting.com''))
       in
       if \<not> truthy tenantId \<or> \<not> truthy clientId \<or> \<not> truthy clientSecret \<or> \<not> truthy fromUser then
         and_then (emit (Log LogError)) (\<lambda>_.
         and_then (emit (SetRes (res 500 False (lit ''Mail service not configured.'')))) (\<lambda>_.
         returns (res 500 False (lit ''Mail service not configured.''))))
       else
       and_then (lift (ClientSecretCredential w tenantId clientId clientSecret)) (\<lambda>credential.
       and_then (call (GetToken credential graph_scope) (getToken w credential graph_scope)) (\<lambda>tok.
       (case tok of
          None \<Rightarrow> throws NoTokenError
        | Some t \<Rightarrow>
          if token t = [] then throws NoTokenError
          else
          (let html = html_body name email phone message;
               mail = mail_payload name email html toAddress
           in
           and_then (lift (encodeURIComponent w fromUser)) (\<lambda>user.
           (let url = sendMail_url user;
                init = fetch_init (token t) (JSON_stringify w mail)
            in
            and_then (call (Fetch url init) (fetch w url init)) (\<lambda>resp.
            if \<not> resp_ok resp then
              and_then (lift (resp_text resp)) (\<lambda>text.
              and_then (emit (Log LogError)) (\<lambda>_.
              throws SendFailedError))
            else
              and_then (emit (SetRes (res 200 True (lit ''Thanks! Your message has been sent.'')))) (\<lambda>_.
              returns JUndefined)))))))))))))))"

text \<open>
  The default export: the \<^verbatim>\<open>try\<close> block, and the \<^verbatim>\<open>catch\<close> that logs the error and
  sets the fallback response.
\<close>

definition handler :: "world \<Rightarrow> request \<Rightarrow> jsval comp" where
  "handler w req =
     try_catch (handler_try w req) (\<lambda>err.
       and_then (emit (Log LogError)) (\<lambda>_.
       and_then (emit (SetRes (res 500 False (lit ''Send failed. Please email jon@schneiderdrafting.com.'')))) (\<lambda>_.
       returns JUndefined)))"

section \<open>The handler with request logging (first file of \<^verbatim>\<open>src/unnamed/part_000\<close>)\<close>

text \<open>
  \<^verbatim>\<open>parseBody\<close>, \<^verbatim>\<open>esc\<close>, the template \<^verbatim>\<open>html\<close> and the object \<^verbatim>\<open>mail\<close> are the same
  text as in \<^verbatim>\<open>index.js\<close>. The handler differs by its log calls, by returning
  \<^verbatim>\<open>undefined\<close> everywhere, by the inner \<^verbatim>\<open>try\<close> around \<^verbatim>\<open>getToken\<close> (log, then
  rethrow) and by \<^verbatim>\<open>resp.text().catch(() => "")\<close>.
\<close>

definition handler_logged_try :: "world \<Rightarrow> request \<Rightarrow> jsval comp" where
  "handler_logged_try w req =
     (let data = parseBody w req in
      and_then (emit (Log LogInfo)) (\<lambda>_.
      and_then (lift (get data (lit ''website''))) (\<lambda>website.
      if truthy website then
        and_then (emit (Log LogInfo)) (\<lambda>_.
        and_then (emit (SetRes (res 200 True (lit ''Thanks!'')))) (\<lambda>_.
        returns JUndefined))
      else
      and_then (lift (trimmed data (lit ''name''))) (\<lambda>name.
      and_then (lift (trimmed data (lit ''email''))) (\<lambda>email.
      and_then (lift (trimmed data (lit ''phone''))) (\<lambda>phone.
      and_then (lift (trimmed data (lit ''message''))) (\<lambda>message.
      if name = [] \<or> email = [] \<or> message = [] then
        and_then (emit (Log LogWarn)) (\<lambda>_.
        and_then (emit (SetRes (res 400 False (lit ''Please include name, email, and message.'')))) (\<lambda>_.
        returns JUndefined))
      else if length message > 5000 then
        and_then (emit (Log LogWarn)) (\<lambda>_.
        and_then (emit (SetRes (res 400 False (lit ''Message is too long.'')))) (\<lambda>_.
        returns JUndefined))
      else
      (let tenantId = process_env w (lit ''TENANT_ID'');
           clientId = process_env w (lit ''CLIENT_ID'');
           clientSecret = process_env w (lit ''CLIENT_SECRET'');
           fromUser = process_env w (lit ''MAILBOX_ADDRESS'');
           toAddress = js_or (process_env w (lit ''MAILBOX_ADDRESS''))
                             (JString (lit ''jon@schneiderdrafting.com''))
       in
       and_then (emit (Log LogInfo)) (\<lambda>_.
       if \<not> truthy tenantId \<or> \<not> truthy clientId \<or> \<not> truthy clientSecret \<or> \<not> truthy fromUser then
         and_then (emit (Log LogError)) (\<lambda>_.
         and_then (emit (SetRes (res 500 False (lit ''Mail service not configured.'')))) (\<lambda>_.
         returns JUndefined))
       else
       and_then (lift (ClientSecretCredential w tenantId clientId clientSecret)) (\<lambda>credential.
       and_then
         (try_catch
            (and_then (call (GetToken credential graph_scope) (getToken w credential graph_scope)) (\<lambda>tok.
             and_then (emit (Log LogInfo)) (\<lambda>_.
             returns tok)))
            (\<lambda>e. and_then (emit (Log LogError)) (\<lambda>_. throws e))) (\<lambda>tok.
       (case tok of
          None \<Rightarrow> throws NoTokenError
        | Some t \<Rightarrow>
          if token t = [] then throws NoTokenError
          else
          (let html = html_body name email phone message;
               mail = mail_payload name email html toAddress
           in
           and_then (lift (encodeURIComponent w fromUser)) (\<lambda>user.
           (let url = sendMail_url user;
                init = fetch_init (token t) (JSON_stringify w mail)
            in
            and_then (emit (Log LogInfo)) (\<lambda>_.
            and_then (call (Fetch url init) (fetch w url init)) (\<lambda>resp.
            if \<not> resp_ok resp then
              (let text = (case resp_text resp of Inr s \<Rightarrow> s | Inl e \<Rightarrow> lit '''') in
               and_then (emit (Log LogError)) (\<lambda>_.
               throws SendFailedError))
            else
              and_then (emit (Log LogInfo)) (\<lambda>_.
              and_then (emit (SetRes (res 200 True (lit ''Thanks! Your message has been sent.'')))) (\<lambda>_.
              returns JUndefined)))))))))))))))))))"

definition handler_logged :: "world \<Rightarrow> request \<Rightarrow> jsval comp" where
  "handler_logged w req =
     try_catch (handler_logged_try w req) (\<lambda>err.
       and_then (emit (Log LogError)) (\<lambda>_.
       and_then (emit (SetRes (res 500 False (lit ''Send failed. Please email jon@schneiderdrafting.com.'')))) (\<lambda>_.
       returns JUndefined)))"

section \<open>The handler built on \<^verbatim>\<open>@azure/functions\<close> (second file of \<^verbatim>\<open>src/unnamed/part_000\<close>)\<close>

text \<open>
  This handler reads the raw text of the request, returns its response instead of
  assigning \<^verbatim>\<open>context.res\<close>, and reads the environment once, when the module loads.
\<close>

record http_request =
  req_text :: "error + jsstring"

text \<open>Truthiness of \<^verbatim>\<open>data.k\<close> for the object \<^verbatim>\<open>querystring.parse\<close> returns.\<close>

fun qs_truthy :: "qs_value option \<Rightarrow> bool" where
  "qs_truthy None = False"
| "qs_truthy (Some (QString s)) = (s \<noteq> [])"
| "qs_truthy (Some (QArray ss)) = True"

text \<open>\<^verbatim>\<open>xs.join(sep)\<close> on an array of strings.\<close>

fun join :: "jsstring \<Rightarrow> jsstring list \<Rightarrow> jsstring" where
  "join sep [] = []"
| "join sep [x] = x"
| "join sep (x # y # xs) = x @ sep @ join sep (y # xs)"

text \<open>\<^verbatim>\<open>String(s || "")\<close>: the string itself, an array joined with commas.\<close>

fun qs_String :: "qs_value option \<Rightarrow> jsstring" where
  "qs_String None = lit ''''"
| "qs_String (Some (QString s)) = s"
| "qs_String (Some (QArray ss)) = join (lit '','') ss"

text \<open>\<^verbatim>\<open>s.replace(/[\r\n]+/g, "\n")\<close>: every run of CR and LF becomes one LF.\<close>

definition isCRLF :: "jschar \<Rightarrow> bool" where
  "isCRLF c \<longleftrightarrow> c = 0x000D \<or> c = 0x000A"

fun collapse_newlines :: "jsstring \<Rightarrow> jsstring" where
  "collapse_newlines [] = []"
| "collapse_newlines [c] = (if isCRLF c then [0x000A] else [c])"
| "collapse_newlines (c # d # s) =
     (if isCRLF c then
        (if isCRLF d then collapse_newlines (d # s) else 0x000A # collapse_newlines (d # s))
      else c # collapse_newlines (d # s))"

text \<open>
  \<^verbatim>\<open>function sanitize(s){ return String(s||"").replace(/[\r\n]+/g,"\n").trim(); }\<close>
\<close>

definition sanitize :: "qs_value option \<Rightarrow> jsstring" where
  "sanitize s = trim (collapse_newlines (qs_String s))"

text \<open>
  \<^verbatim>\<open>
  function buildMessage({name,email,phone,message}){
    const subject = `New inquiry from ${name}`;
    const body = [`Name: ${name}`, `Email: ${email}`, `Phone: ${phone}`, "", "Message:", message].join("\n");
    return {
      message: {
        subject,
        body: { contentType: "Text", content: body },
        toRecipients: [{ emailAddress: { address: MAILBOX_ADDRESS }}],
        replyTo: email ? [{ emailAddress: { address: email }}] : undefined
      },
      saveToSentItems: "true"
    };
  }
  \<close>
\<close>

definition buildMessage :: "world \<Rightarrow> jsstring \<Rightarrow> jsstring \<Rightarrow> jsstring \<Rightarrow> jsstring \<Rightarrow> jsval" where
  "buildMessage w name email phone message =
     (let subject = lit ''New inquiry from '' @ name;
          body = join [0x000A]
            [lit ''Name: '' @ name, lit ''Email: '' @ email, lit ''Phone: '' @ phone,
             lit '''', lit ''Message:'', message]
      in
      JObject
        [(lit ''message'', JObject
           [(lit ''subject'', JString subject),
            (lit ''body'', JObject
               [(lit ''contentType'', JString (lit ''Text'')),
                (lit ''content'', JString body)]),
            (lit ''toRecipients'', JArray
               [JObject [(lit ''emailAddress'', JObject
                  [(lit ''address'', process_env w (lit ''MAILBOX_ADDRESS''))])]]),
            (lit ''replyTo'',
               if email \<noteq> [] then
                 JArray [JObject [(lit ''emailAddress'', JObject [(lit ''address'', JString email)])]]
               else JUndefined)]),
         (lit ''saveToSentItems'', JString (lit ''true''))])"

text \<open>
  \<^verbatim>\<open>
  async function sendMailViaGraph(msg){
    const result = await cca.acquireTokenByClientCredential({ scopes: ["https://graph.microsoft.com/.default"] });
    const token = result?.accessToken;
    if (!token) throw new Error("No Graph token");
    const endpoint = `https://graph.microsoft.com/v1.0/users/${encodeURIComponent(MAILBOX_ADDRESS)}/sendMail`;
    const res = await fetch(endpoint, { method:"POST", headers:{ ... }, body: JSON.stringify(msg) });
    if (!res.ok) throw new Error(`Graph sendMail failed (${res.status})`);
  }
  \<close>
\<close>

definition sendMailViaGraph :: "world \<Rightarrow> jsval \<Rightarrow> unit comp" where
  "sendMailViaGraph w msg =
     and_then (call (AcquireToken [graph_scope])
                    (acquireTokenByClientCredential w [graph_scope])) (\<lambda>result.
     (case result of
        None \<Rightarrow> throws NoTokenError
      | Some r \<Rightarrow>
        if accessToken r = [] then throws NoTokenError
        else
        and_then (lift (encodeURIComponent w (process_env w (lit ''MAILBOX_ADDRESS'')))) (\<lambda>user.
        (let endpoint = sendMail_url user;
             init = fetch_init (accessToken r) (JSON_stringify w msg)
         in
         and_then (call (Fetch endpoint init) (fetch w endpoint init)) (\<lambda>res.
         if \<not> resp_ok res then throws SendFailedError else returns ())))))"

text \<open>The \<^verbatim>\<open>handler\<close> registered with \<^verbatim>\<open>app.http("contact", ...)\<close>.\<close>

definition contact_handler_try :: "world \<Rightarrow> http_request \<Rightarrow> jsval comp" where
  "contact_handler_try w req =
     and_then (lift (req_text req)) (\<lambda>raw.
     (let data = map_of (querystring_parse w raw) in
      if qs_truthy (data (lit ''website'')) then returns (res 200 True (lit ''Thanks!''))
      else
      (let name = sanitize (data (lit ''name''));
           email = sanitize (data (lit ''email''));
           phone = sanitize (data (lit ''phone''));
           message = sanitize (data (lit ''message''))
       in
       if name = [] \<or> email = [] then
         returns (res 400 False (lit ''Please include your name and a valid email.''))
       else
       and_then (sendMailViaGraph w (buildMessage w name email phone message)) (\<lambda>_.
       returns (res 200 True (lit ''Thanks! Your message has been sent.''))))))"

definition contact_handler :: "world \<Rightarrow> http_request \<Rightarrow> jsval comp" where
  "contact_handler w req =
     try_catch (contact_handler_try w req) (\<lambda>err.
       and_then (emit (Log LogInfo)) (\<lambda>_.
       returns (res 500 False
         (lit ''We couldn'' @ [0x2019]
          @ lit ''t send your message. Please email info@schneiderdrafting.com.''))))"

section \<open>Reading a run\<close>

text \<open>
  The assignments to \<^verbatim>\<open>context.res\<close> of a run, in order (the last one is the response
  the platform sends), and the calls that leave the process: token requests and HTTP
  calls to the mail API.
\<close>

fun responses :: "event list \<Rightarrow> jsval list" where
  "responses [] = []"
| "responses (SetRes r # t) = r # responses t"
| "responses (ev # t) = responses t"

fun is_token_call :: "event \<Rightarrow> bool" where
  "is_token_call (GetToken c s) = True"
| "is_token_call (AcquireToken ss) = True"
| "is_token_call ev = False"

fun is_send :: "event \<Rightarrow> bool" where
  "is_send (Fetch u i) = True"
| "is_send ev = False"

definition token_calls :: "event list \<Rightarrow> event list" where
  "token_calls t = filter is_token_call t"

definition sends :: "event list \<Rightarrow> event list" where
  "sends t = filter is_send t"

text \<open>\<^verbatim>\<open>v.a.b...\<close>: a chain of property reads.\<close>

fun get_path :: "jsval \<Rightarrow> jsstring list \<Rightarrow> error + jsval" where
  "get_path v [] = Inr v"
| "get_path v (k # ks) = (case get v k of Inl e \<Rightarrow> Inl e | Inr u \<Rightarrow> get_path u ks)"

section \<open>Symbolic execution\<close>

text \<open>
  \<open>pre t c\<close> is the computation \<open>c\<close> after the events \<open>t\<close>; \<open>run t m h\<close> is
  \<^verbatim>\<open>try { m } catch (e) { h(e) }\<close> after the events \<open>t\<close>; \<open>holds P c\<close> is \<open>P c\<close>, kept
  folded while a computation is executed step by step.
\<close>

definition pre :: "event list \<Rightarrow> 'a comp \<Rightarrow> 'a comp" where
  "pre t c = (t @ fst c, snd c)"

definition run :: "event list \<Rightarrow> 'a comp \<Rightarrow> (error \<Rightarrow> 'a comp) \<Rightarrow> 'a comp" where
  "run t m h = pre t (try_catch m h)"

definition holds :: "('a comp \<Rightarrow> bool) \<Rightarrow> 'a comp \<Rightarrow> bool" where
  "holds P c = P c"

section \<open>A sample world and sample requests\<close>

text \<open>
  A world in which everything succeeds: ASCII lower-casing and percent-encoding, a JSON
  parser that knows the empty object only, a complete configuration, an identity provider
  that issues a token and a mail API that answers 202.
\<close>

definition ascii_lower :: "jsstring \<Rightarrow> jsstring" where
  "ascii_lower s = map (\<lambda>c. if 0x41 \<le> c \<and> c \<le> 0x5A then c + 0x20 else c) s"

definition hex_digit :: "nat \<Rightarrow> jschar" where
  "hex_digit n = (if n < 10 then 0x30 + of_nat n else 0x41 + of_nat (n - 10))"

definition uri_unreserved :: "jschar \<Rightarrow> bool" where
  "uri_unreserved c \<longleftrightarrow>
     (0x41 \<le> c \<and> c \<le> 0x5A) \<or> (0x61 \<le> c \<and> c \<le> 0x7A) \<or> (0x30 \<le> c \<and> c \<le> 0x39)
     \<or> c \<in> {0x2D, 0x5F, 0x2E, 0x21, 0x7E, 0x2A, 0x27, 0x28, 0x29}"

definition ascii_encodeURIComponent :: "jsval \<Rightarrow> error + jsstring" where
  "ascii_encodeURIComponent v =
     (case v of
        JString s \<Rightarrow>
          if list_all (\<lambda>c. c < 0x80) s then
            Inr (concat (map (\<lambda>c. if uri_unreserved c then [c]
                                   else [0x25, hex_digit (unat c div 16), hex_digit (unat c mod 16)]) s))
          else Inl URIError
      | _ \<Rightarrow> Inl URIError)"

definition sample_env :: "jsstring \<rightharpoonup> jsstring" where
  "sample_env =
     [lit ''TENANT_ID'' \<mapsto> lit ''contoso'',
      lit ''CLIENT_ID'' \<mapsto> lit ''app-1'',
      lit ''CLIENT_SECRET'' \<mapsto> lit ''s3cret'',
      lit ''MAILBOX_ADDRESS'' \<mapsto> lit ''info@example.com'']"

definition sample_world :: world where
  "sample_world =
     \<lparr> toLowerCase = ascii_lower,
       URLSearchParams = (\<lambda>s. []),
       JSON_parse = (\<lambda>s. if s = lit ''{}'' then Inr (JObject []) else Inl SyntaxError),
       JSON_stringify = (\<lambda>v. lit ''{}''),
       encodeURIComponent = ascii_encodeURIComponent,
       env = sample_env,
       ClientSecretCredential = (\<lambda>t c s. Inr (Credential t c s)),
       getToken = (\<lambda>c s. Inr (Some \<lparr> token = lit ''tok'' \<rparr>)),
       fetch = (\<lambda>u i. Inr \<lparr> resp_status = 202, resp_text = Inr (lit '''') \<rparr>),
       querystring_parse = (\<lambda>s. []),
       acquireTokenByClientCredential = (\<lambda>ss. Inr (Some \<lparr> accessToken = lit ''tok'' \<rparr>)) \<rparr>"

text \<open>The submission of the specification's example, as a JSON body the platform parsed.\<close>

definition submission :: "jsstring \<Rightarrow> jsstring \<Rightarrow> jsstring \<Rightarrow> jsstring \<Rightarrow> (jsstring \<times> jsval) list" where
  "submission name email phone message =
     [(lit ''name'', JString name), (lit ''email'', JString email),
      (lit ''phone'', JString phone), (lit ''message'', JString message)]"

definition json_request :: "(jsstring \<times> jsval) list \<Rightarrow> request" where
  "json_request ps =
     \<lparr> headers = [lit ''content-type'' \<mapsto> lit ''application/json''],
       body = JObject ps,
       rawBody = None \<rparr>"

definition jane :: request where
  "jane = json_request (submission (lit ''Jane Doe'') (lit ''jane@example.com'') (lit '''') (lit ''Hello''))"

definition token_failure_world :: world where
  "token_failure_world = sample_world \<lparr> getToken := (\<lambda>c s. Inl TokenError) \<rparr>"

definition unconfigured_world :: world where
  "unconfigured_world = sample_world \<lparr> env := sample_env (lit ''TENANT_ID'' := None) \<rparr>"

text \<open>Requests: a bot that filled the hidden field, and a JSON body whose name is a number.\<close>

definition spam_request :: request where
  "spam_request = json_request [(lit ''website'', JString (lit ''http://spam.example''))]"

definition numeric_name_request :: request where
  "numeric_name_request =
     json_request [(lit ''name'', JNumber (JFin 5)), (lit ''email'', JString (lit '''')),
                   (lit ''message'', JString (lit ''Hello''))]"

text \<open>A message of \<open>n\<close> letters, and the sample submission with that message.\<close>

definition long_message :: "nat \<Rightarrow> jsstring" where
  "long_message n = replicate n (ch CHR ''a'')"

definition long_request :: "nat \<Rightarrow> request" where
  "long_request n =
     json_request (submission (lit ''Jane Doe'') (lit ''jane@example.com'') (lit '''') (long_message n))"

text \<open>A body that is neither form data (by its content type) nor JSON.\<close>

definition garbled_request :: request where
  "garbled_request =
     \<lparr> headers = [lit ''content-type'' \<mapsto> lit ''text/plain''],
       body = JString (lit ''name=Jane''),
       rawBody = Some (lit ''name=Jane'') \<rparr>"

section \<open>The conditions the handler tests\<close>

text \<open>
  \<^verbatim>\<open>if (data.website)\<close> is not taken: the read succeeds and the value is falsy.
\<close>

definition not_honeypot :: "world \<Rightarrow> request \<Rightarrow> bool" where
  "not_honeypot w req \<longleftrightarrow>
     (case get (parseBody w req) (lit ''website'') of
        Inr website \<Rightarrow> \<not> truthy website
      | Inl e \<Rightarrow> False)"

text \<open>
  The four \<^verbatim>\<open>(data.k || "").trim()\<close> succeed, with these results. They do exactly when
  each of the four properties is absent, falsy or a string.
\<close>

definition fields :: "world \<Rightarrow> request \<Rightarrow> jsstring \<Rightarrow> jsstring \<Rightarrow> jsstring \<Rightarrow> jsstring \<Rightarrow> bool" where
  "fields w req name email phone message \<longleftrightarrow>
     trimmed (parseBody w req) (lit ''name'') = Inr name
     \<and> trimmed (parseBody w req) (lit ''email'') = Inr email
     \<and> trimmed (parseBody w req) (lit ''phone'') = Inr phone
     \<and> trimmed (parseBody w req) (lit ''message'') = Inr message"

text \<open>
  The request passes the three checks of the handler: no honeypot,
  \<^verbatim>\<open>!name || !email || !message\<close> is false and \<^verbatim>\<open>message.length > 5000\<close> is false.
\<close>

definition valid_submission ::
  "world \<Rightarrow> request \<Rightarrow> jsstring \<Rightarrow> jsstring \<Rightarrow> jsstring \<Rightarrow> jsstring \<Rightarrow> bool" where
  "valid_submission w req name email phone message \<longleftrightarrow>
     not_honeypot w req \<and> fields w req name email phone message
     \<and> name \<noteq> [] \<and> email \<noteq> [] \<and> message \<noteq> [] \<and> length message \<le> 5000"

text \<open>
  \<^verbatim>\<open>!tenantId || !clientId || !clientSecret || !fromUser\<close> is false: the four variables
  are set and not empty.
\<close>

definition configured :: "world \<Rightarrow> jsstring \<Rightarrow> jsstring \<Rightarrow> jsstring \<Rightarrow> jsstring \<Rightarrow> bool" where
  "configured w tenantId clientId clientSecret mailbox \<longleftrightarrow>
     env w (lit ''TENANT_ID'') = Some tenantId \<and> tenantId \<noteq> []
     \<and> env w (lit ''CLIENT_ID'') = Some clientId \<and> clientId \<noteq> []
     \<and> env w (lit ''CLIENT_SECRET'') = Some clientSecret \<and> clientSecret \<noteq> []
     \<and> env w (lit ''MAILBOX_ADDRESS'') = Some mailbox \<and> mailbox \<noteq> []"

definition config_vars :: "jsstring list" where
  "config_vars = [lit ''TENANT_ID'', lit ''CLIENT_ID'', lit ''CLIENT_SECRET'', lit ''MAILBOX_ADDRESS'']"

section \<open>Vocabulary of the statements\<close>

text \<open>The characters that open, close or quote HTML markup.\<close>

definition is_markup :: "jschar \<Rightarrow> bool" where
  \<open>is_markup c \<longleftrightarrow> c = ch CHR ''<'' \<or> c = ch CHR ''>'' \<or> c = ch CHR 0x22\<close>

text \<open>The messages of the four failure responses of \<^verbatim>\<open>index.js\<close>.\<close>

definition failure_messages :: "jsstring list" where
  "failure_messages =
     [lit ''Please include name, email, and message.'',
      lit ''Message is too long.'',
      lit ''Mail service not configured.'',
      lit ''Send failed. Please email jon@schneiderdrafting.com.'']"

text \<open>The sample world with a mail API that refuses the request.\<close>

definition rejecting_world :: world where
  \<open>rejecting_world =
     sample_world \<lparr> fetch := (\<lambda>u i. Inr \<lparr> resp_status = 403,
        resp_text = Inr (lit ''{"error":{"code":"ErrorAccessDenied"}}'') \<rparr>) \<rparr>\<close>

text \<open>The sample submission with a \<^verbatim>\<open>website\<close> property of any value.\<close>

definition jane_with :: "jsval \<Rightarrow> request" where
  "jane_with website =
     json_request ((lit ''website'', website)
       # submission (lit ''Jane Doe'') (lit ''jane@example.com'') (lit '''') (lit ''Hello''))"

text \<open>
  For the handler that reads form data with \<^verbatim>\<open>querystring.parse\<close>: the sample world
  with what that function returns on two bodies, and a request with a given raw text.
\<close>

definition form_world :: world where
  "form_world =
     sample_world \<lparr> querystring_parse := (\<lambda>s.
       if s = lit ''name=Jane&email=jane@example.com&message=Hello&website='' then
         [(lit ''name'', QString (lit ''Jane'')), (lit ''email'', QString (lit ''jane@example.com'')),
          (lit ''message'', QString (lit ''Hello'')), (lit ''website'', QString (lit ''''))]
       else if s = lit ''website=+'' then [(lit ''website'', QString (lit '' ''))]
       else []) \<rparr>"

definition form_request :: "jsstring \<Rightarrow> http_request" where
  "form_request raw = \<lparr> req_text = Inr raw \<rparr>"

section \<open>Executing computations step by step\<close>

lemmas comp_defs = returns_def throws_def lift_def emit_def call_def and_then_def try_catch_def

lemma pre_nil: "pre [] c = c"
  by (simp add: pre_def)

lemma pre_pair: "pre t (t', r) = (t @ t', r)"
  by (simp add: pre_def)

lemma pre_returns: "pre t (returns x) = (t, Inr x)"
  by (simp add: pre_def returns_def)

lemma pre_throws: "pre t (throws e) = (t, Inl e)"
  by (simp add: pre_def throws_def)

lemma pre_emit: "pre t (and_then (emit ev) k) = pre (t @ [ev]) (k ())"
  by (simp add: pre_def comp_defs split: prod.split)

lemma pre_lift_Inl: "pre t (and_then (lift (Inl e)) k) = (t, Inl e)"
  by (simp add: pre_def comp_defs)

lemma pre_lift_Inr: "pre t (and_then (lift (Inr x)) k) = pre t (k x)"
  by (simp add: pre_def comp_defs split: prod.split)

lemma pre_call_Inl: "pre t (and_then (call ev (Inl e)) k) = (t @ [ev], Inl e)"
  by (simp add: pre_def comp_defs)

lemma pre_call_Inr: "pre t (and_then (call ev (Inr x)) k) = pre (t @ [ev]) (k x)"
  by (simp add: pre_def comp_defs split: prod.split)

lemma pre_step_Inl: "pre t (and_then (a, Inl e) k) = (t @ a, Inl e)"
  by (simp add: pre_def comp_defs)

lemma pre_step_Inr: "pre t (and_then (a, Inr x) k) = pre (t @ a) (k x)"
  by (simp add: pre_def comp_defs split: prod.split)

lemma run_returns: "run t (returns x) h = (t, Inr x)"
  by (simp add: run_def pre_def comp_defs)

lemma run_throws: "run t (throws e) h = pre t (h e)"
  by (simp add: run_def pre_def comp_defs split: prod.split)

lemma run_emit: "run t (and_then (emit ev) k) h = run (t @ [ev]) (k ()) h"
  by (simp add: run_def pre_def comp_defs split: sum.split prod.split)

lemma run_lift_Inl: "run t (and_then (lift (Inl e)) k) h = pre t (h e)"
  by (simp add: run_def pre_def comp_defs split: prod.split)

lemma run_lift_Inr: "run t (and_then (lift (Inr x)) k) h = run t (k x) h"
  by (simp add: run_def pre_def comp_defs split: prod.split)

lemma run_call_Inl: "run t (and_then (call ev (Inl e)) k) h = pre (t @ [ev]) (h e)"
  by (simp add: run_def pre_def comp_defs split: prod.split)

lemma run_call_Inr: "run t (and_then (call ev (Inr x)) k) h = run (t @ [ev]) (k x) h"
  by (simp add: run_def pre_def comp_defs split: sum.split prod.split)

lemma token_step:
  "try_catch (and_then (call ev r) (\<lambda>tok. and_then (emit a) (\<lambda>_. returns tok)))
             (\<lambda>e. and_then (emit b) (\<lambda>_. throws e)) =
   (case r of Inl e \<Rightarrow> ([ev, b], Inl e) | Inr tok \<Rightarrow> ([ev, a], Inr tok))"
  by (simp add: comp_defs split: sum.split prod.split)

lemma run_pair_Inl: "run t (and_then (a, Inl e) k) h = pre (t @ a) (h e)"
  by (simp add: run_def pre_def comp_defs split: prod.split)

lemma run_pair_Inr: "run t (and_then (a, Inr x) k) h = run (t @ a) (k x) h"
  by (simp add: run_def pre_def comp_defs split: sum.split prod.split)

lemma holds_pair: "holds P (t, r) = P (t, r)"
  by (simp add: holds_def)

lemma holds_run_lift:
  "holds P (run t (and_then (lift r) k) h) \<longleftrightarrow>
     (\<forall>e. r = Inl e \<longrightarrow> holds P (pre t (h e))) \<and> (\<forall>x. r = Inr x \<longrightarrow> holds P (run t (k x) h))"
  by (cases r) (simp_all add: run_lift_Inl run_lift_Inr)

lemma holds_run_call:
  "holds P (run t (and_then (call ev r) k) h) \<longleftrightarrow>
     (\<forall>e. r = Inl e \<longrightarrow> holds P (pre (t @ [ev]) (h e))) \<and>
     (\<forall>x. r = Inr x \<longrightarrow> holds P (run (t @ [ev]) (k x) h))"
  by (cases r) (simp_all add: run_call_Inl run_call_Inr)

lemma holds_run_token_step:
  "holds P (run t (and_then (case r of Inl e \<Rightarrow> (a, Inl e) | Inr x \<Rightarrow> (b, Inr x)) k) h) \<longleftrightarrow>
     (\<forall>e. r = Inl e \<longrightarrow> holds P (pre (t @ a) (h e))) \<and>
     (\<forall>x. r = Inr x \<longrightarrow> holds P (run (t @ b) (k x) h))"
  by (cases r) (simp_all add: run_pair_Inl run_pair_Inr)

lemma holds_run_option:
  "holds P (run t (case v of None \<Rightarrow> a | Some x \<Rightarrow> b x) h) \<longleftrightarrow>
     (v = None \<longrightarrow> holds P (run t a h)) \<and> (\<forall>x. v = Some x \<longrightarrow> holds P (run t (b x) h))"
  by (cases v) simp_all

lemmas sym_exec = holds_pair holds_run_lift holds_run_call holds_run_token_step holds_run_option
  pre_pair pre_returns pre_throws pre_emit run_returns run_throws run_emit token_step

lemmas path_exec = run_lift_Inl run_lift_Inr run_call_Inl run_call_Inr run_pair_Inl run_pair_Inr
  pre_pair pre_returns pre_throws pre_emit run_returns run_throws run_emit token_step

lemmas try_exec = pre_lift_Inl pre_lift_Inr pre_call_Inl pre_call_Inr pre_step_Inl pre_step_Inr
  pre_pair pre_returns pre_throws pre_emit token_step

lemma handler_run:
  "handler w req = run [] (handler_try w req) (\<lambda>err.
     and_then (emit (Log LogError)) (\<lambda>_.
     and_then (emit (SetRes (res 500 False (lit ''Send failed. Please email jon@schneiderdrafting.com.'')))) (\<lambda>_.
     returns JUndefined)))"
  by (simp add: handler_def run_def pre_def)

lemma handler_logged_run:
  "handler_logged w req = run [] (handler_logged_try w req) (\<lambda>err.
     and_then (emit (Log LogError)) (\<lambda>_.
     and_then (emit (SetRes (res 500 False (lit ''Send failed. Please email jon@schneiderdrafting.com.'')))) (\<lambda>_.
     returns JUndefined)))"
  by (simp add: handler_logged_def run_def pre_def)

lemma responses_append: "responses (t @ u) = responses t @ responses u"
  by (induction t rule: responses.induct) simp_all

lemmas proj = token_calls_def sends_def

lemma res_inject: "res s b m = res s' b' m' \<longleftrightarrow> s = s' \<and> b = b' \<and> m = m'"
  by (auto simp: res_def)

section \<open>Facts about strings\<close>

lemmas lit_eval = lit_def ch_def

lemma trim_keep:
  assumes "s \<noteq> []" and "\<not> isWhiteSpace (hd s)" and "\<not> isWhiteSpace (last s)"
  shows "trim s = s"
proof -
  from assms have 1: "dropWhile isWhiteSpace s = s"
    by (cases s) simp_all
  from assms have 2: "dropWhile isWhiteSpace (rev s) = rev s"
    by (cases s rule: rev_cases) simp_all
  show ?thesis
    by (simp add: trim_def 1 2)
qed

lemma trim_empty: "trim [] = []"
  by (simp add: trim_def)

lemma trim_long_message: "0 < n \<Longrightarrow> trim (long_message n) = long_message n"
  by (rule trim_keep) (simp_all add: long_message_def isWhiteSpace_def ch_def)

section \<open>Facts about the sample world\<close>

text \<open>The definitions that evaluate a run in the sample world.\<close>

lemmas sample_eval = parseBody_def json_request_def submission_def trimmed_def js_or_def or_str_def
  ascii_lower_def trim_def isWhiteSpace_def lit_def ch_def process_env_def sample_world_def
  sample_env_def

lemma parseBody_json_request:
  "toLowerCase w = ascii_lower \<Longrightarrow> parseBody w (json_request ps) = JObject ps"
  by (simp add: parseBody_def json_request_def or_str_def ascii_lower_def lit_eval)

lemma sample_world_fields:
  "toLowerCase sample_world = ascii_lower"
  "env sample_world = sample_env"
  "encodeURIComponent sample_world = ascii_encodeURIComponent"
  "ClientSecretCredential sample_world a b c = Inr (Credential a b c)"
  "getToken sample_world cr sc = Inr (Some \<lparr> token = lit ''tok'' \<rparr>)"
  by (simp_all add: sample_world_def)

lemma tok_nonempty: "token \<lparr> token = lit ''tok'' \<rparr> \<noteq> []"
  by (simp add: lit_def)

lemma sample_trims:
  "trim (lit ''Jane Doe'') = lit ''Jane Doe''"
  "trim (lit ''jane@example.com'') = lit ''jane@example.com''"
  "trim (lit '''') = lit ''''"
  "trim (lit ''Hello'') = lit ''Hello''"
  by (simp_all add: trim_def isWhiteSpace_def lit_eval)

lemma sample_configured:
  "env w = sample_env \<Longrightarrow>
     configured w (lit ''contoso'') (lit ''app-1'') (lit ''s3cret'') (lit ''info@example.com'')"
  by (simp add: configured_def sample_env_def lit_eval)

lemma sample_encode:
  "ascii_encodeURIComponent (JString (lit ''info@example.com'')) = Inr (lit ''info%40example.com'')"
  by (simp add: ascii_encodeURIComponent_def uri_unreserved_def hex_digit_def lit_eval)

section \<open>The paths through the handlers\<close>

lemma not_honeypotD:
  "not_honeypot w req \<Longrightarrow> \<exists>v. get (parseBody w req) (lit ''website'') = Inr v \<and> \<not> truthy v"
  by (auto simp: not_honeypot_def split: sum.splits)

lemma valid_submissionD:
  assumes "valid_submission w req name email phone message"
  shows "\<exists>v. get (parseBody w req) (lit ''website'') = Inr v \<and> \<not> truthy v"
    and "trimmed (parseBody w req) (lit ''name'') = Inr name"
    and "trimmed (parseBody w req) (lit ''email'') = Inr email"
    and "trimmed (parseBody w req) (lit ''phone'') = Inr phone"
    and "trimmed (parseBody w req) (lit ''message'') = Inr message"
    and "name \<noteq> []" and "email \<noteq> []" and "message \<noteq> []" and "\<not> 5000 < length message"
  using assms not_honeypotD [of w req] by (auto simp: valid_submission_def fields_def)

lemma configuredD:
  assumes "configured w tenantId clientId clientSecret mailbox"
  shows "process_env w (lit ''TENANT_ID'') = JString tenantId"
    and "process_env w (lit ''CLIENT_ID'') = JString clientId"
    and "process_env w (lit ''CLIENT_SECRET'') = JString clientSecret"
    and "process_env w (lit ''MAILBOX_ADDRESS'') = JString mailbox"
    and "tenantId \<noteq> []" and "clientId \<noteq> []" and "clientSecret \<noteq> []" and "mailbox \<noteq> []"
  using assms by (simp_all add: configured_def process_env_def)

lemma unset_falsy:
  "env w k = None \<or> env w k = Some [] \<Longrightarrow> \<not> truthy (process_env w k)"
  by (auto simp: process_env_def)

lemma submission_fields:
  assumes "toLowerCase w = ascii_lower"
  shows "not_honeypot w (json_request (submission n e p m))"
    and "fields w (json_request (submission n e p m)) (trim n) (trim e) (trim p) (trim m)"
  using assms
  by (simp_all add: not_honeypot_def fields_def parseBody_json_request submission_def trimmed_def
      js_or_def trim_empty lit_eval)

lemma jane_valid:
  assumes "toLowerCase w = ascii_lower"
  shows "valid_submission w jane (lit ''Jane Doe'') (lit ''jane@example.com'') (lit '''') (lit ''Hello'')"
proof -
  have "not_honeypot w jane"
    unfolding jane_def by (rule submission_fields(1) [OF assms])
  moreover have "fields w jane (lit ''Jane Doe'') (lit ''jane@example.com'') (lit '''') (lit ''Hello'')"
    using submission_fields(2) [OF assms, of "lit ''Jane Doe''" "lit ''jane@example.com''" "lit ''''" "lit ''Hello''"]
    by (simp only: sample_trims jane_def)
  ultimately show ?thesis
    by (simp add: valid_submission_def lit_def)
qed

lemma long_request_fields:
  assumes "toLowerCase w = ascii_lower" and "0 < n"
  shows "not_honeypot w (long_request n)"
    and "fields w (long_request n) (lit ''Jane Doe'') (lit ''jane@example.com'') (lit '''') (long_message n)"
proof -
  show "not_honeypot w (long_request n)"
    unfolding long_request_def by (rule submission_fields(1) [OF assms(1)])
  show "fields w (long_request n) (lit ''Jane Doe'') (lit ''jane@example.com'') (lit '''') (long_message n)"
    using submission_fields(2) [OF assms(1), of "lit ''Jane Doe''" "lit ''jane@example.com''" "lit ''''" "long_message n"]
    by (simp only: sample_trims trim_long_message [OF assms(2)] long_request_def)
qed

lemma missing_field_path:
  assumes "not_honeypot w req" and "fields w req name email phone message"
      and "name = [] \<or> email = [] \<or> message = []"
  shows "handler w req =
           ([SetRes (res 400 False (lit ''Please include name, email, and message.''))],
            Inr (res 400 False (lit ''Please include name, email, and message.'')))"
    and "handler_logged w req =
           ([Log LogInfo, Log LogWarn,
             SetRes (res 400 False (lit ''Please include name, email, and message.''))],
            Inr JUndefined)"
proof -
  from assms(1) obtain v where v: "get (parseBody w req) (lit ''website'') = Inr v" "\<not> truthy v"
    using not_honeypotD by blast
  show "handler w req =
           ([SetRes (res 400 False (lit ''Please include name, email, and message.''))],
            Inr (res 400 False (lit ''Please include name, email, and message.'')))"
    unfolding handler_run handler_try_def Let_def
    using v assms(2,3) by (simp add: fields_def path_exec)
  show "handler_logged w req =
           ([Log LogInfo, Log LogWarn,
             SetRes (res 400 False (lit ''Please include name, email, and message.''))],
            Inr JUndefined)"
    unfolding handler_logged_run handler_logged_try_def Let_def
    using v assms(2,3) by (simp add: fields_def path_exec)
qed

lemma valid_not_400:
  assumes "valid_submission w req name email phone message"
  shows "holds (\<lambda>c. \<forall>b m. responses (fst c) \<noteq> [res 400 b m]) (handler w req)"
    and "holds (\<lambda>c. \<forall>b m. responses (fst c) \<noteq> [res 400 b m]) (handler_logged w req)"
proof -
  from valid_submissionD(1) [OF assms(1)]
  obtain v where v: "get (parseBody w req) (lit ''website'') = Inr v" "\<not> truthy v" by blast
  note f = valid_submissionD(2-9) [OF assms(1)]
  show "holds (\<lambda>c. \<forall>b m. responses (fst c) \<noteq> [res 400 b m]) (handler w req)"
    unfolding handler_run handler_try_def Let_def
    using v f by (simp add: path_exec sym_exec res_inject)
  show "holds (\<lambda>c. \<forall>b m. responses (fst c) \<noteq> [res 400 b m]) (handler_logged w req)"
    unfolding handler_logged_run handler_logged_try_def Let_def
    using v f by (simp add: path_exec sym_exec res_inject)
qed

lemma unconfigured:
  assumes "valid_submission w req name email phone message"
      and "\<not> truthy (process_env w (lit ''TENANT_ID'')) \<or> \<not> truthy (process_env w (lit ''CLIENT_ID''))
           \<or> \<not> truthy (process_env w (lit ''CLIENT_SECRET''))
           \<or> \<not> truthy (process_env w (lit ''MAILBOX_ADDRESS''))"
  shows "handler w req =
           ([Log LogError, SetRes (res 500 False (lit ''Mail service not configured.''))],
            Inr (res 500 False (lit ''Mail service not configured.'')))"
    and "handler_logged w req =
           ([Log LogInfo, Log LogInfo, Log LogError,
             SetRes (res 500 False (lit ''Mail service not configured.''))],
            Inr JUndefined)"
proof -
  from valid_submissionD(1) [OF assms(1)]
  obtain v where v: "get (parseBody w req) (lit ''website'') = Inr v" "\<not> truthy v" by blast
  note f = valid_submissionD(2-9) [OF assms(1)]
  show "handler w req =
           ([Log LogError, SetRes (res 500 False (lit ''Mail service not configured.''))],
            Inr (res 500 False (lit ''Mail service not configured.'')))"
    unfolding handler_run handler_try_def Let_def
    using v f assms(2) by (simp add: path_exec)
  show "handler_logged w req =
           ([Log LogInfo, Log LogInfo, Log LogError,
             SetRes (res 500 False (lit ''Mail service not configured.''))],
            Inr JUndefined)"
    unfolding handler_logged_run handler_logged_try_def Let_def
    using v f assms(2) by (simp add: path_exec)
qed

lemma token_requested:
  assumes "valid_submission w req name email phone message"
      and "configured w tenantId clientId clientSecret mailbox"
      and "ClientSecretCredential w (JString tenantId) (JString clientId) (JString clientSecret)
             = Inr credential"
  shows "holds (\<lambda>c. token_calls (fst c) = [GetToken credential graph_scope]) (handler w req)"
    and "holds (\<lambda>c. token_calls (fst c) = [GetToken credential graph_scope]) (handler_logged w req)"
proof -
  from valid_submissionD(1) [OF assms(1)]
  obtain v where v: "get (parseBody w req) (lit ''website'') = Inr v" "\<not> truthy v" by blast
  note f = valid_submissionD(2-9) [OF assms(1)]
  note c = configuredD [OF assms(2)]
  show "holds (\<lambda>c. token_calls (fst c) = [GetToken credential graph_scope]) (handler w req)"
    unfolding handler_run handler_try_def Let_def
    using v f c assms(3) by (simp add: path_exec sym_exec js_or_def proj)
  show "holds (\<lambda>c. token_calls (fst c) = [GetToken credential graph_scope]) (handler_logged w req)"
    unfolding handler_logged_run handler_logged_try_def Let_def
    using v f c assms(3) by (simp add: path_exec sym_exec js_or_def proj)
qed

lemma mail_sent:
  assumes "valid_submission w req name email phone message"
      and "configured w tenantId clientId clientSecret mailbox"
      and "ClientSecretCredential w (JString tenantId) (JString clientId) (JString clientSecret)
             = Inr credential"
      and "getToken w credential graph_scope = Inr (Some t)" and "token t \<noteq> []"
      and "encodeURIComponent w (JString mailbox) = Inr user"
  shows "holds (\<lambda>c. sends (fst c) =
           [Fetch (sendMail_url user)
              (fetch_init (token t) (JSON_stringify w
                 (mail_payload name email (html_body name email phone message) (JString mailbox))))])
         (handler w req)"
    and "holds (\<lambda>c. sends (fst c) =
           [Fetch (sendMail_url user)
              (fetch_init (token t) (JSON_stringify w
                 (mail_payload name email (html_body name email phone message) (JString mailbox))))])
         (handler_logged w req)"
proof -
  from valid_submissionD(1) [OF assms(1)]
  obtain v where v: "get (parseBody w req) (lit ''website'') = Inr v" "\<not> truthy v" by blast
  note f = valid_submissionD(2-9) [OF assms(1)]
  note c = configuredD [OF assms(2)]
  show "holds (\<lambda>c. sends (fst c) =
           [Fetch (sendMail_url user)
              (fetch_init (token t) (JSON_stringify w
                 (mail_payload name email (html_body name email phone message) (JString mailbox))))])
         (handler w req)"
    unfolding handler_run handler_try_def Let_def
    using v f c assms(3-6) by (simp add: path_exec sym_exec js_or_def proj)
  show "holds (\<lambda>c. sends (fst c) =
           [Fetch (sendMail_url user)
              (fetch_init (token t) (JSON_stringify w
                 (mail_payload name email (html_body name email phone message) (JString mailbox))))])
         (handler_logged w req)"
    unfolding handler_logged_run handler_logged_try_def Let_def
    using v f c assms(3-6) by (simp add: path_exec sym_exec js_or_def proj)
qed

lemma mail_answered:
  assumes "valid_submission w req name email phone message"
      and "configured w tenantId clientId clientSecret mailbox"
      and "ClientSecretCredential w (JString tenantId) (JString clientId) (JString clientSecret)
             = Inr credential"
      and "getToken w credential graph_scope = Inr (Some t)" and "token t \<noteq> []"
      and "encodeURIComponent w (JString mailbox) = Inr user"
      and "fetch w (sendMail_url user)
              (fetch_init (token t) (JSON_stringify w
                 (mail_payload name email (html_body name email phone message) (JString mailbox))))
           = Inr resp"
  shows "resp_ok resp \<Longrightarrow> handler w req =
           ([GetToken credential graph_scope,
             Fetch (sendMail_url user)
              (fetch_init (token t) (JSON_stringify w
                 (mail_payload name email (html_body name email phone message) (JString mailbox)))),
             SetRes (res 200 True (lit ''Thanks! Your message has been sent.''))],
            Inr JUndefined)"
    and "resp_ok resp \<Longrightarrow> handler_logged w req =
           ([Log LogInfo, Log LogInfo, GetToken credential graph_scope, Log LogInfo, Log LogInfo,
             Fetch (sendMail_url user)
              (fetch_init (token t) (JSON_stringify w
                 (mail_payload name email (html_body name email phone message) (JString mailbox)))),
             Log LogInfo,
             SetRes (res 200 True (lit ''Thanks! Your message has been sent.''))],
            Inr JUndefined)"
    and "\<not> resp_ok resp \<Longrightarrow> responses (fst (handler w req)) =
           [res 500 False (lit ''Send failed. Please email jon@schneiderdrafting.com.'')]"
    and "\<not> resp_ok resp \<Longrightarrow> handler_logged w req =
           ([Log LogInfo, Log LogInfo, GetToken credential graph_scope, Log LogInfo, Log LogInfo,
             Fetch (sendMail_url user)
              (fetch_init (token t) (JSON_stringify w
                 (mail_payload name email (html_body name email phone message) (JString mailbox)))),
             Log LogError, Log LogError,
             SetRes (res 500 False (lit ''Send failed. Please email jon@schneiderdrafting.com.''))],
            Inr JUndefined)"
proof -
  from valid_submissionD(1) [OF assms(1)]
  obtain v where v: "get (parseBody w req) (lit ''website'') = Inr v" "\<not> truthy v" by blast
  note f = valid_submissionD(2-9) [OF assms(1)]
  note c = configuredD [OF assms(2)]
  show "resp_ok resp \<Longrightarrow> handler w req =
           ([GetToken credential graph_scope,
             Fetch (sendMail_url user)
              (fetch_init (token t) (JSON_stringify w
                 (mail_payload name email (html_body name email phone message) (JString mailbox)))),
             SetRes (res 200 True (lit ''Thanks! Your message has been sent.''))],
            Inr JUndefined)"
    unfolding handler_run handler_try_def Let_def
    using v f c assms(3-7) by (simp add: path_exec js_or_def)
  show "resp_ok resp \<Longrightarrow> handler_logged w req =
           ([Log LogInfo, Log LogInfo, GetToken credential graph_scope, Log LogInfo, Log LogInfo,
             Fetch (sendMail_url user)
              (fetch_init (token t) (JSON_stringify w
                 (mail_payload name email (html_body name email phone message) (JString mailbox)))),
             Log LogInfo,
             SetRes (res 200 True (lit ''Thanks! Your message has been sent.''))],
            Inr JUndefined)"
    unfolding handler_logged_run handler_logged_try_def Let_def
    using v f c assms(3-7) by (simp add: path_exec js_or_def)
  show "\<not> resp_ok resp \<Longrightarrow> responses (fst (handler w req)) =
           [res 500 False (lit ''Send failed. Please email jon@schneiderdrafting.com.'')]"
    unfolding handler_run handler_try_def Let_def
    using v f c assms(3-7) by (cases "resp_text resp") (simp_all add: path_exec js_or_def)
  show "\<not> resp_ok resp \<Longrightarrow> handler_logged w req =
           ([Log LogInfo, Log LogInfo, GetToken credential graph_scope, Log LogInfo, Log LogInfo,
             Fetch (sendMail_url user)
              (fetch_init (token t) (JSON_stringify w
                 (mail_payload name email (html_body name email phone message) (JString mailbox)))),
             Log LogError, Log LogError,
             SetRes (res 500 False (lit ''Send failed. Please email jon@schneiderdrafting.com.''))],
            Inr JUndefined)"
    unfolding handler_logged_run handler_logged_try_def Let_def
    using v f c assms(3-7) by (simp add: path_exec js_or_def)
qed

section \<open>C1: every run sets one response\<close>

lemma one_response:
  "holds (\<lambda>c. (\<exists>s b m. responses (fst c) = [res s b m] \<and> s \<in> {200, 400, 500}) \<and> (\<exists>v. snd c = Inr v))
     (handler w req)"
  unfolding handler_run handler_try_def Let_def
  apply (simp add: sym_exec)
  apply blast
  done

lemma one_response_logged:
  "holds (\<lambda>c. (\<exists>s b m. responses (fst c) = [res s b m] \<and> s \<in> {200, 400, 500}) \<and> (\<exists>v. snd c = Inr v))
     (handler_logged w req)"
  unfolding handler_logged_run handler_logged_try_def Let_def
  apply (simp add: sym_exec)
  apply blast
  done

lemma caught:
  assumes "m = (t, Inl e)"
      and "\<exists>r. responses (fst (try_catch m (\<lambda>err. and_then (emit (Log LogError)) (\<lambda>_.
               and_then (emit (SetRes x)) (\<lambda>_. returns JUndefined))))) = [r]"
  shows "try_catch m (\<lambda>err. and_then (emit (Log LogError)) (\<lambda>_.
           and_then (emit (SetRes x)) (\<lambda>_. returns JUndefined)))
         = (t @ [Log LogError, SetRes x], Inr JUndefined) \<and> responses t = []"
  using assms by (simp add: comp_defs responses_append)

text \<open>
  Claim C1. Whatever the request and whatever the outside world answers, a run of the
  handler returns normally (the promise resolves, no error leaves the function) and
  assigns \<^verbatim>\<open>context.res\<close> exactly once, to an object
  \<^verbatim>\<open>{ status, jsonBody: { ok, message } }\<close> whose status is 200, 400 or 500. When the
  \<^verbatim>\<open>try\<close> block throws, after the events \<open>t\<close>, no response was assigned before the
  throw, and the \<^verbatim>\<open>catch\<close> logs the error and assigns status 500 with \<^verbatim>\<open>ok: false\<close>.
  This holds for the handler of \<^verbatim>\<open>index.js\<close> and for the one with request logging.
  The awaited calls are taken to settle: each either returns or throws.
\<close>

theorem handler_responds_once:
  "(\<exists>s b m. responses (fst (handler w req)) = [res s b m] \<and> s \<in> {200, 400, 500})
   \<and> (\<exists>v. snd (handler w req) = Inr v)
   \<and> (\<forall>t e. handler_try w req = (t, Inl e) \<longrightarrow>
         handler w req =
           (t @ [Log LogError,
                 SetRes (res 500 False (lit ''Send failed. Please email jon@schneiderdrafting.com.''))],
            Inr JUndefined)
         \<and> responses t = [])
   \<and> (\<exists>s b m. responses (fst (handler_logged w req)) = [res s b m] \<and> s \<in> {200, 400, 500})
   \<and> (\<exists>v. snd (handler_logged w req) = Inr v)
   \<and> (\<forall>t e. handler_logged_try w req = (t, Inl e) \<longrightarrow>
         handler_logged w req =
           (t @ [Log LogError,
                 SetRes (res 500 False (lit ''Send failed. Please email jon@schneiderdrafting.com.''))],
            Inr JUndefined)
         \<and> responses t = [])"
proof -
  have a: "(\<exists>s b m. responses (fst (handler w req)) = [res s b m] \<and> s \<in> {200, 400, 500})
           \<and> (\<exists>v. snd (handler w req) = Inr v)"
    using one_response [of w req] by (simp add: holds_def)
  have b: "(\<exists>s b m. responses (fst (handler_logged w req)) = [res s b m] \<and> s \<in> {200, 400, 500})
           \<and> (\<exists>v. snd (handler_logged w req) = Inr v)"
    using one_response_logged [of w req] by (simp add: holds_def)
  from a have a1: "\<exists>r. responses (fst (handler w req)) = [r]" by blast
  from b have b1: "\<exists>r. responses (fst (handler_logged w req)) = [r]" by blast
  show ?thesis
    using a b caught [OF _ a1 [unfolded handler_def]] caught [OF _ b1 [unfolded handler_logged_def]]
    by (simp add: handler_def handler_logged_def)
qed

text \<open>
  The sample submission in a world whose identity provider fails: the \<^verbatim>\<open>try\<close> block
  throws after the token request, and the response is the 500 of the \<^verbatim>\<open>catch\<close>.
\<close>

theorem handler_responds_once_witness:
  "handler_try token_failure_world jane =
     ([GetToken (Credential (JString (lit ''contoso'')) (JString (lit ''app-1'')) (JString (lit ''s3cret'')))
         graph_scope], Inl TokenError)
   \<and> handler token_failure_world jane =
     ([GetToken (Credential (JString (lit ''contoso'')) (JString (lit ''app-1'')) (JString (lit ''s3cret'')))
         graph_scope,
       Log LogError,
       SetRes (res 500 False (lit ''Send failed. Please email jon@schneiderdrafting.com.''))],
      Inr JUndefined)
   \<and> handler_logged_try token_failure_world jane =
     ([Log LogInfo, Log LogInfo,
       GetToken (Credential (JString (lit ''contoso'')) (JString (lit ''app-1'')) (JString (lit ''s3cret'')))
         graph_scope,
       Log LogError], Inl TokenError)
   \<and> handler_logged token_failure_world jane =
     ([Log LogInfo, Log LogInfo,
       GetToken (Credential (JString (lit ''contoso'')) (JString (lit ''app-1'')) (JString (lit ''s3cret'')))
         graph_scope,
       Log LogError, Log LogError,
       SetRes (res 500 False (lit ''Send failed. Please email jon@schneiderdrafting.com.''))],
      Inr JUndefined)"
proof -
  have "pre [] (handler_try token_failure_world jane) =
     ([GetToken (Credential (JString (lit ''contoso'')) (JString (lit ''app-1'')) (JString (lit ''s3cret'')))
         graph_scope], Inl TokenError)"
    unfolding handler_try_def Let_def jane_def
    by (simp add: sample_eval token_failure_world_def try_exec)
  then have h: "handler_try token_failure_world jane =
     ([GetToken (Credential (JString (lit ''contoso'')) (JString (lit ''app-1'')) (JString (lit ''s3cret'')))
         graph_scope], Inl TokenError)"
    by (simp add: pre_nil)
  have "pre [] (handler_logged_try token_failure_world jane) =
     ([Log LogInfo, Log LogInfo,
       GetToken (Credential (JString (lit ''contoso'')) (JString (lit ''app-1'')) (JString (lit ''s3cret'')))
         graph_scope,
       Log LogError], Inl TokenError)"
    unfolding handler_logged_try_def Let_def jane_def
    by (simp add: sample_eval token_failure_world_def try_exec)
  then have l: "handler_logged_try token_failure_world jane =
     ([Log LogInfo, Log LogInfo,
       GetToken (Credential (JString (lit ''contoso'')) (JString (lit ''app-1'')) (JString (lit ''s3cret'')))
         graph_scope,
       Log LogError], Inl TokenError)"
    by (simp add: pre_nil)
  show ?thesis
    using handler_responds_once [of token_failure_world jane] h l by simp
qed

section \<open>C2: the honeypot\<close>

text \<open>
  Claim C2. When the parsed \<^verbatim>\<open>website\<close> property is a non-empty string, the handler
  assigns the response 200 with \<^verbatim>\<open>ok: true\<close> and the message \<^verbatim>\<open>Thanks!\<close>, and the run
  holds no token request and no HTTP call; nothing is assumed about \<^verbatim>\<open>name\<close>,
  \<^verbatim>\<open>email\<close> or \<^verbatim>\<open>message\<close>.
\<close>

theorem honeypot_silent_success:
  assumes "get (parseBody w req) (lit ''website'') = Inr (JString s)" and "s \<noteq> []"
  shows "handler w req =
           ([SetRes (res 200 True (lit ''Thanks!''))], Inr (res 200 True (lit ''Thanks!'')))
         \<and> token_calls (fst (handler w req)) = [] \<and> sends (fst (handler w req)) = []
         \<and> handler_logged w req =
           ([Log LogInfo, Log LogInfo, SetRes (res 200 True (lit ''Thanks!''))], Inr JUndefined)
         \<and> token_calls (fst (handler_logged w req)) = []
         \<and> sends (fst (handler_logged w req)) = []"
  unfolding handler_run handler_logged_run handler_try_def handler_logged_try_def Let_def
  using assms by (simp add: path_exec proj)

text \<open>A JSON body that holds the \<^verbatim>\<open>website\<close> property and nothing else.\<close>

theorem honeypot_silent_success_witness:
  "get (parseBody sample_world spam_request) (lit ''website'') = Inr (JString (lit ''http://spam.example''))
   \<and> lit ''http://spam.example'' \<noteq> []
   \<and> handler sample_world spam_request =
        ([SetRes (res 200 True (lit ''Thanks!''))], Inr (res 200 True (lit ''Thanks!'')))
   \<and> token_calls (fst (handler sample_world spam_request)) = []
   \<and> sends (fst (handler sample_world spam_request)) = []
   \<and> handler_logged sample_world spam_request =
        ([Log LogInfo, Log LogInfo, SetRes (res 200 True (lit ''Thanks!''))], Inr JUndefined)
   \<and> token_calls (fst (handler_logged sample_world spam_request)) = []
   \<and> sends (fst (handler_logged sample_world spam_request)) = []"
proof -
  have a: "get (parseBody sample_world spam_request) (lit ''website'') =
             Inr (JString (lit ''http://spam.example''))"
    by (simp add: spam_request_def sample_eval)
  have b: "lit ''http://spam.example'' \<noteq> []"
    by (simp add: lit_def)
  show ?thesis
    using honeypot_silent_success [OF a b] a b by blast
qed

section \<open>C3: required fields\<close>

text \<open>
  Claim C3, amended. For a submission that is not caught by the honeypot and whose
  \<^verbatim>\<open>name\<close>, \<^verbatim>\<open>email\<close>, \<^verbatim>\<open>phone\<close> and \<^verbatim>\<open>message\<close> are each absent, falsy or a string
  (so that the four \<^verbatim>\<open>trim()\<close> calls succeed): when the trimmed name, email or message is
  empty, the handler assigns the response 400 with \<^verbatim>\<open>ok: false\<close>, and the run holds no
  token request and no HTTP call.
\<close>

theorem missing_field_rejected:
  assumes "not_honeypot w req" and "fields w req name email phone message"
      and "name = [] \<or> email = [] \<or> message = []"
  shows "handler w req =
           ([SetRes (res 400 False (lit ''Please include name, email, and message.''))],
            Inr (res 400 False (lit ''Please include name, email, and message.'')))
         \<and> token_calls (fst (handler w req)) = [] \<and> sends (fst (handler w req)) = []
         \<and> handler_logged w req =
           ([Log LogInfo, Log LogWarn,
             SetRes (res 400 False (lit ''Please include name, email, and message.''))],
            Inr JUndefined)
         \<and> token_calls (fst (handler_logged w req)) = []
         \<and> sends (fst (handler_logged w req)) = []"
  using missing_field_path [OF assms] by (simp add: proj)

text \<open>The sample submission with an email of one space.\<close>

theorem missing_field_rejected_witness:
  "not_honeypot sample_world
     (json_request (submission (lit ''Jane Doe'') (lit '' '') (lit '''') (lit ''Hello'')))
   \<and> fields sample_world
     (json_request (submission (lit ''Jane Doe'') (lit '' '') (lit '''') (lit ''Hello'')))
     (lit ''Jane Doe'') (lit '''') (lit '''') (lit ''Hello'')
   \<and> (lit ''Jane Doe'' = [] \<or> lit '''' = [] \<or> lit ''Hello'' = [])
   \<and> handler sample_world
       (json_request (submission (lit ''Jane Doe'') (lit '' '') (lit '''') (lit ''Hello''))) =
         ([SetRes (res 400 False (lit ''Please include name, email, and message.''))],
          Inr (res 400 False (lit ''Please include name, email, and message.'')))
   \<and> handler_logged sample_world
       (json_request (submission (lit ''Jane Doe'') (lit '' '') (lit '''') (lit ''Hello''))) =
         ([Log LogInfo, Log LogWarn,
           SetRes (res 400 False (lit ''Please include name, email, and message.''))],
          Inr JUndefined)"
proof -
  let ?r = "json_request (submission (lit ''Jane Doe'') (lit '' '') (lit '''') (lit ''Hello''))"
  have a: "not_honeypot sample_world ?r"
    by (simp add: not_honeypot_def sample_eval)
  have b: "fields sample_world ?r (lit ''Jane Doe'') (lit '''') (lit '''') (lit ''Hello'')"
    by (simp add: fields_def sample_eval)
  have c: "lit ''Jane Doe'' = [] \<or> lit '''' = [] \<or> lit ''Hello'' = []"
    by (simp add: lit_def)
  show ?thesis
    using missing_field_rejected [OF a b c] a b c by blast
qed

text \<open>
  The claim as stated fails on a JSON body whose \<^verbatim>\<open>name\<close> is the number 5 and whose
  \<^verbatim>\<open>email\<close> is empty: the submission is not a honeypot hit and its email is empty
  after trimming, but \<^verbatim>\<open>(data.name || "").trim()\<close> throws a TypeError and the response
  is the 500 of the \<^verbatim>\<open>catch\<close>, not a 400.
\<close>

theorem missing_field_counterexample:
  "not_honeypot sample_world numeric_name_request
   \<and> trimmed (parseBody sample_world numeric_name_request) (lit ''email'') = Inr []
   \<and> handler sample_world numeric_name_request =
       ([Log LogError,
         SetRes (res 500 False (lit ''Send failed. Please email jon@schneiderdrafting.com.''))],
        Inr JUndefined)
   \<and> handler_logged sample_world numeric_name_request =
       ([Log LogInfo, Log LogError,
         SetRes (res 500 False (lit ''Send failed. Please email jon@schneiderdrafting.com.''))],
        Inr JUndefined)"
  unfolding handler_run handler_logged_run handler_try_def handler_logged_try_def Let_def
    numeric_name_request_def
  by (simp add: not_honeypot_def sample_eval path_exec)

section \<open>C4: the length guard\<close>

text \<open>
  Claim C4. For a submission that is not caught by the honeypot and has a name and an
  email: when the trimmed message is longer than 5000 code units (5001 is the first such
  length), the response is 400 with \<^verbatim>\<open>ok: false\<close> and the run holds no token request
  and no HTTP call. When it is not empty and at most 5000 units long (5000 is the last
  such length), the response is not a 400; with a complete configuration and a credential
  object the run holds exactly one token request, and with a token and an encoded mailbox
  address it holds exactly one HTTP call, which carries the mail built from the
  submission.
\<close>

theorem message_length_guard:
  assumes "not_honeypot w req" and "fields w req name email phone message"
      and "name \<noteq> []" and "email \<noteq> []"
  shows "(5000 < length message \<longrightarrow>
            handler w req =
              ([SetRes (res 400 False (lit ''Message is too long.''))],
               Inr (res 400 False (lit ''Message is too long.'')))
            \<and> token_calls (fst (handler w req)) = [] \<and> sends (fst (handler w req)) = []
            \<and> handler_logged w req =
              ([Log LogInfo, Log LogWarn, SetRes (res 400 False (lit ''Message is too long.''))],
               Inr JUndefined)
            \<and> token_calls (fst (handler_logged w req)) = []
            \<and> sends (fst (handler_logged w req)) = [])
       \<and> (message \<noteq> [] \<and> length message \<le> 5000 \<longrightarrow>
            (\<forall>b m. responses (fst (handler w req)) \<noteq> [res 400 b m])
            \<and> (\<forall>b m. responses (fst (handler_logged w req)) \<noteq> [res 400 b m])
            \<and> (\<forall>tenantId clientId clientSecret mailbox credential.
                  configured w tenantId clientId clientSecret mailbox
                  \<and> ClientSecretCredential w (JString tenantId) (JString clientId) (JString clientSecret)
                      = Inr credential \<longrightarrow>
                  token_calls (fst (handler w req)) = [GetToken credential graph_scope]
                  \<and> token_calls (fst (handler_logged w req)) = [GetToken credential graph_scope]
                  \<and> (\<forall>t user.
                        getToken w credential graph_scope = Inr (Some t) \<and> token t \<noteq> []
                        \<and> encodeURIComponent w (JString mailbox) = Inr user \<longrightarrow>
                        sends (fst (handler w req)) =
                          [Fetch (sendMail_url user)
                             (fetch_init (token t) (JSON_stringify w
                                (mail_payload name email (html_body name email phone message)
                                   (JString mailbox))))]
                        \<and> sends (fst (handler_logged w req)) =
                          [Fetch (sendMail_url user)
                             (fetch_init (token t) (JSON_stringify w
                                (mail_payload name email (html_body name email phone message)
                                   (JString mailbox))))])))"
proof (intro conjI impI)
  from assms(1) obtain v where v: "get (parseBody w req) (lit ''website'') = Inr v" "\<not> truthy v"
    using not_honeypotD by blast
  assume long: "5000 < length message"
  then have ne: "message \<noteq> []" by auto
  show "handler w req =
          ([SetRes (res 400 False (lit ''Message is too long.''))],
           Inr (res 400 False (lit ''Message is too long.'')))"
    unfolding handler_run handler_try_def Let_def
    using v assms(2-4) long ne by (simp add: fields_def path_exec)
  then show "token_calls (fst (handler w req)) = []" "sends (fst (handler w req)) = []"
    by (simp_all add: proj)
  show "handler_logged w req =
          ([Log LogInfo, Log LogWarn, SetRes (res 400 False (lit ''Message is too long.''))],
           Inr JUndefined)"
    unfolding handler_logged_run handler_logged_try_def Let_def
    using v assms(2-4) long ne by (simp add: fields_def path_exec)
  then show "token_calls (fst (handler_logged w req)) = []" "sends (fst (handler_logged w req)) = []"
    by (simp_all add: proj)
next
  assume "message \<noteq> [] \<and> length message \<le> 5000"
  with assms have valid: "valid_submission w req name email phone message"
    by (simp add: valid_submission_def)
  show "\<forall>b m. responses (fst (handler w req)) \<noteq> [res 400 b m]"
    using valid_not_400(1) [OF valid] by (simp add: holds_def)
  show "\<forall>b m. responses (fst (handler_logged w req)) \<noteq> [res 400 b m]"
    using valid_not_400(2) [OF valid] by (simp add: holds_def)
  show "\<forall>tenantId clientId clientSecret mailbox credential.
          configured w tenantId clientId clientSecret mailbox
          \<and> ClientSecretCredential w (JString tenantId) (JString clientId) (JString clientSecret)
              = Inr credential \<longrightarrow>
          token_calls (fst (handler w req)) = [GetToken credential graph_scope]
          \<and> token_calls (fst (handler_logged w req)) = [GetToken credential graph_scope]
          \<and> (\<forall>t user.
                getToken w credential graph_scope = Inr (Some t) \<and> token t \<noteq> []
                \<and> encodeURIComponent w (JString mailbox) = Inr user \<longrightarrow>
                sends (fst (handler w req)) =
                  [Fetch (sendMail_url user)
                     (fetch_init (token t) (JSON_stringify w
                        (mail_payload name email (html_body name email phone message)
                           (JString mailbox))))]
                \<and> sends (fst (handler_logged w req)) =
                  [Fetch (sendMail_url user)
                     (fetch_init (token t) (JSON_stringify w
                        (mail_payload name email (html_body name email phone message)
                           (JString mailbox))))])"
    by (intro allI impI conjI; (elim conjE)?;
        (rule token_requested [OF valid, unfolded holds_def] mail_sent [OF valid, unfolded holds_def];
         assumption))
qed

text \<open>The sample submission with a message of 5001 letters, and with one of 5000.\<close>

theorem message_length_guard_witness:
  "not_honeypot sample_world (long_request 5001)
   \<and> fields sample_world (long_request 5001)
        (lit ''Jane Doe'') (lit ''jane@example.com'') (lit '''') (long_message 5001)
   \<and> lit ''Jane Doe'' \<noteq> [] \<and> lit ''jane@example.com'' \<noteq> []
   \<and> 5000 < length (long_message 5001)
   \<and> handler sample_world (long_request 5001) =
        ([SetRes (res 400 False (lit ''Message is too long.''))],
         Inr (res 400 False (lit ''Message is too long.'')))
   \<and> sends (fst (handler sample_world (long_request 5001))) = []
   \<and> not_honeypot sample_world (long_request 5000)
   \<and> fields sample_world (long_request 5000)
        (lit ''Jane Doe'') (lit ''jane@example.com'') (lit '''') (long_message 5000)
   \<and> long_message 5000 \<noteq> [] \<and> length (long_message 5000) \<le> 5000
   \<and> configured sample_world (lit ''contoso'') (lit ''app-1'') (lit ''s3cret'') (lit ''info@example.com'')
   \<and> ClientSecretCredential sample_world
        (JString (lit ''contoso'')) (JString (lit ''app-1'')) (JString (lit ''s3cret''))
      = Inr (Credential (JString (lit ''contoso'')) (JString (lit ''app-1'')) (JString (lit ''s3cret'')))
   \<and> getToken sample_world
        (Credential (JString (lit ''contoso'')) (JString (lit ''app-1'')) (JString (lit ''s3cret'')))
        graph_scope
      = Inr (Some \<lparr> token = lit ''tok'' \<rparr>)
   \<and> token \<lparr> token = lit ''tok'' \<rparr> \<noteq> []
   \<and> encodeURIComponent sample_world (JString (lit ''info@example.com''))
      = Inr (lit ''info%40example.com'')
   \<and> token_calls (fst (handler sample_world (long_request 5000))) =
        [GetToken
           (Credential (JString (lit ''contoso'')) (JString (lit ''app-1'')) (JString (lit ''s3cret'')))
           graph_scope]
   \<and> sends (fst (handler sample_world (long_request 5000))) =
        [Fetch (sendMail_url (lit ''info%40example.com''))
           (fetch_init (token \<lparr> token = lit ''tok'' \<rparr>) (JSON_stringify sample_world
              (mail_payload (lit ''Jane Doe'') (lit ''jane@example.com'')
                 (html_body (lit ''Jane Doe'') (lit ''jane@example.com'') (lit '''') (long_message 5000))
                 (JString (lit ''info@example.com'')))))]"
proof -
  note lf1 = long_request_fields [OF sample_world_fields(1), of 5001, simplified]
  note lf0 = long_request_fields [OF sample_world_fields(1), of 5000, simplified]
  have ne: "lit ''Jane Doe'' \<noteq> []" "lit ''jane@example.com'' \<noteq> []"
    by (simp_all add: lit_def)
  have len1: "5000 < length (long_message 5001)"
    by (simp add: long_message_def)
  have len0: "long_message 5000 \<noteq> [] \<and> length (long_message 5000) \<le> 5000"
    by (simp add: long_message_def)
  have cfg: "configured sample_world (lit ''contoso'') (lit ''app-1'') (lit ''s3cret'')
               (lit ''info@example.com'')"
    by (rule sample_configured) (rule sample_world_fields)
  have enc: "encodeURIComponent sample_world (JString (lit ''info@example.com''))
               = Inr (lit ''info%40example.com'')"
    by (simp only: sample_world_fields sample_encode)
  note g1 = message_length_guard [OF lf1 ne, THEN conjunct1, THEN mp, OF len1]
  note g0 = message_length_guard [OF lf0 ne, THEN conjunct2, THEN mp, OF len0]
  note g0' = g0 [THEN conjunct2, THEN conjunct2, THEN spec, THEN spec, THEN spec, THEN spec,
      THEN spec, THEN mp, OF conjI [OF cfg sample_world_fields(4)]]
  note g0'' = g0' [THEN conjunct2, THEN conjunct2, THEN spec, THEN spec, THEN mp,
      OF conjI [OF sample_world_fields(5) conjI [OF tok_nonempty enc]]]
  show ?thesis
    using lf1 lf0 ne len1 len0 cfg enc sample_world_fields(4,5) tok_nonempty g1 g0' g0''
    by (intro conjI) (elim conjE, assumption)+
qed

section \<open>C5: missing configuration\<close>

text \<open>
  Claim C5, amended. The handler reads the configuration after it has validated the
  submission. For a submission that passes validation, when one of \<^verbatim>\<open>TENANT_ID\<close>,
  \<^verbatim>\<open>CLIENT_ID\<close>, \<^verbatim>\<open>CLIENT_SECRET\<close>, \<^verbatim>\<open>MAILBOX_ADDRESS\<close> is unset (or empty), the
  response is 500 with \<^verbatim>\<open>ok: false\<close> and the message \<^verbatim>\<open>Mail service not configured.\<close>,
  the same whichever variable is missing, and the run holds no token request and no
  HTTP call.
\<close>

theorem configuration_missing:
  assumes "valid_submission w req name email phone message"
      and "k \<in> set config_vars"
      and "env w k = None \<or> env w k = Some []"
  shows "handler w req =
           ([Log LogError, SetRes (res 500 False (lit ''Mail service not configured.''))],
            Inr (res 500 False (lit ''Mail service not configured.'')))
         \<and> token_calls (fst (handler w req)) = [] \<and> sends (fst (handler w req)) = []
         \<and> handler_logged w req =
           ([Log LogInfo, Log LogInfo, Log LogError,
             SetRes (res 500 False (lit ''Mail service not configured.''))],
            Inr JUndefined)
         \<and> token_calls (fst (handler_logged w req)) = []
         \<and> sends (fst (handler_logged w req)) = []"
proof -
  from assms(2,3)
  have "\<not> truthy (process_env w (lit ''TENANT_ID'')) \<or> \<not> truthy (process_env w (lit ''CLIENT_ID''))
        \<or> \<not> truthy (process_env w (lit ''CLIENT_SECRET''))
        \<or> \<not> truthy (process_env w (lit ''MAILBOX_ADDRESS''))"
    using unset_falsy [of w k] by (auto simp: config_vars_def)
  from unconfigured [OF assms(1) this] show ?thesis
    by (simp add: proj)
qed

text \<open>The sample submission in the sample world without \<^verbatim>\<open>TENANT_ID\<close>.\<close>

theorem configuration_missing_witness:
  "valid_submission unconfigured_world jane
     (lit ''Jane Doe'') (lit ''jane@example.com'') (lit '''') (lit ''Hello'')
   \<and> lit ''TENANT_ID'' \<in> set config_vars
   \<and> (env unconfigured_world (lit ''TENANT_ID'') = None
        \<or> env unconfigured_world (lit ''TENANT_ID'') = Some [])
   \<and> handler unconfigured_world jane =
        ([Log LogError, SetRes (res 500 False (lit ''Mail service not configured.''))],
         Inr (res 500 False (lit ''Mail service not configured.'')))
   \<and> token_calls (fst (handler unconfigured_world jane)) = []
   \<and> sends (fst (handler unconfigured_world jane)) = []"
proof -
  have a: "valid_submission unconfigured_world jane
     (lit ''Jane Doe'') (lit ''jane@example.com'') (lit '''') (lit ''Hello'')"
    by (rule jane_valid) (simp add: unconfigured_world_def sample_world_def)
  have b: "lit ''TENANT_ID'' \<in> set config_vars"
    by (simp add: config_vars_def)
  have c: "env unconfigured_world (lit ''TENANT_ID'') = None
        \<or> env unconfigured_world (lit ''TENANT_ID'') = Some []"
    by (simp add: unconfigured_world_def)
  show ?thesis
    using configuration_missing [OF a b c] a b c by (intro conjI) (elim conjE, assumption)+
qed

text \<open>
  The claim as stated fails: without \<^verbatim>\<open>TENANT_ID\<close>, a honeypot hit is still answered
  with 200 and a submission without fields with 400, since both checks come before the
  configuration is read.
\<close>

theorem configuration_missing_counterexample:
  "env unconfigured_world (lit ''TENANT_ID'') = None
   \<and> handler unconfigured_world spam_request =
        ([SetRes (res 200 True (lit ''Thanks!''))], Inr (res 200 True (lit ''Thanks!'')))
   \<and> handler_logged unconfigured_world spam_request =
        ([Log LogInfo, Log LogInfo, SetRes (res 200 True (lit ''Thanks!''))], Inr JUndefined)
   \<and> handler unconfigured_world (json_request []) =
        ([SetRes (res 400 False (lit ''Please include name, email, and message.''))],
         Inr (res 400 False (lit ''Please include name, email, and message.'')))
   \<and> handler_logged unconfigured_world (json_request []) =
        ([Log LogInfo, Log LogWarn,
          SetRes (res 400 False (lit ''Please include name, email, and message.''))],
         Inr JUndefined)"
  unfolding handler_run handler_logged_run handler_try_def handler_logged_try_def Let_def
    spam_request_def
  by (simp add: unconfigured_world_def sample_eval path_exec)

section \<open>C6: escaping\<close>

lemma replaceAll_append: "replaceAll (s @ t) p r = replaceAll s p r @ replaceAll t p r"
  by (induction s) simp_all

lemma esc_Nil: "esc [] = []"
  by (simp add: esc_def)

lemma esc_Cons: "esc (c # s) = esc_unit c @ esc s"
  by (simp add: esc_def esc_unit_def replaceAll_append lit_eval)

lemma esc_concat: "esc s = concat (map esc_unit s)"
  by (induction s) (simp_all add: esc_Nil esc_Cons)

lemma esc_append: "esc (s @ t) = esc s @ esc t"
  by (simp add: esc_concat)

lemma esc_unit_plain:
  "ch CHR ''<'' \<notin> set (esc_unit c)" "ch CHR ''>'' \<notin> set (esc_unit c)"
  "ch CHR 0x22 \<notin> set (esc_unit c)"
  by (auto simp: esc_unit_def lit_eval)

lemma esc_plain:
  "ch CHR ''<'' \<notin> set (esc s)" "ch CHR ''>'' \<notin> set (esc s)" "ch CHR 0x22 \<notin> set (esc s)"
  by (simp_all add: esc_concat esc_unit_plain)

lemma esc_unit_nonempty: "esc_unit c \<noteq> []"
  by (simp add: esc_unit_def lit_eval)

lemma esc_unit_prefix_free:
  "esc_unit c @ x = esc_unit d @ y \<Longrightarrow> c = d \<and> x = y"
  by (auto simp: esc_unit_def lit_eval split: if_splits)

lemma esc_inject: "esc s = esc t \<Longrightarrow> s = t"
proof (induction s arbitrary: t)
  case Nil
  then show ?case
    by (cases t) (simp_all add: esc_Nil esc_Cons esc_unit_nonempty)
next
  case (Cons c s)
  show ?case
  proof (cases t)
    case Nil
    with Cons.prems show ?thesis
      by (simp add: esc_Nil esc_Cons esc_unit_nonempty)
  next
    case (Cons d u)
    with Cons.prems have "esc_unit c @ esc s = esc_unit d @ esc u"
      by (simp add: esc_Cons)
    then have "c = d \<and> esc s = esc u"
      by (rule esc_unit_prefix_free)
    with Cons.IH Cons show ?thesis
      by simp
  qed
qed

lemma startsWith_append: "startsWith (x @ s) x"
  by (induction x) simp_all

lemma str_includes_refl: "str_includes (x @ s) x"
  using startsWith_append [of x s] by (cases "x @ s") auto

lemma str_includes_right: "str_includes t x \<Longrightarrow> str_includes (s @ t) x"
  by (induction s) simp_all

lemma str_includes_mid: "str_includes (p @ x @ s) x"
  by (rule str_includes_right) (rule str_includes_refl)

lemma str_includes_skip:
  "c \<notin> set u \<Longrightarrow> str_includes (u @ t) (c # ps) = str_includes t (c # ps)"
proof (induction u)
  case Nil
  then show ?case by simp
next
  case (Cons a u)
  then show ?case by (cases "u @ t") auto
qed

lemma esc_script:
  \<open>esc (lit ''<script>&"</script>'') = lit ''&lt;script&gt;&amp;&quot;&lt;/script&gt;''\<close>
  by (simp add: esc_def lit_eval)

lemma html_no_script: "\<not> str_includes (html_body name email phone message) (lit ''<script>'')"
proof -
  have lt: "\<And>s. (0x3C :: jschar) \<notin> set (esc s)"
    using esc_plain(1) by (simp add: ch_def)
  show ?thesis
    by (simp add: html_body_def lit_eval str_includes_skip [OF lt])
qed

lemma html_holds_message:
  "str_includes (html_body name email phone (a @ x @ b)) (esc x)"
  unfolding html_body_def esc_append append_assoc
  by (rule str_includes_refl | rule str_includes_right)+

lemma esc_no_markup: "filter is_markup (esc s) = []"
  using esc_plain [of s] by (auto simp: filter_empty_conv is_markup_def)

lemma html_markup:
  "(phone = [] \<longleftrightarrow> phone' = []) \<Longrightarrow>
     filter is_markup (html_body name email phone message)
       = filter is_markup (html_body name' email' phone' message')"
  by (simp add: html_body_def esc_no_markup)

text \<open>
  Claim C6. \<^verbatim>\<open>esc\<close> replaces every code unit by itself or, for \<^verbatim>\<open>&\<close>, \<^verbatim>\<open><\<close>, \<^verbatim>\<open>>\<close> and
  the double quote, by its entity; since \<^verbatim>\<open>&\<close> is replaced first, the four passes act as
  one substitution, the result holds no \<^verbatim>\<open><\<close>, \<^verbatim>\<open>>\<close> or double quote, and no two strings
  have the same escaped form. The four strings a submission puts into the HTML body all
  go through \<^verbatim>\<open>esc\<close>: the markup characters of the body are those of the template,
  whatever the submission holds (only the presence of a phone number selects a line).
  In particular \<^verbatim>\<open><script>&"</script>\<close> is escaped to
  \<^verbatim>\<open>&lt;script&gt;&amp;&quot;&lt;/script&gt;\<close>, a message that contains it appears in the
  body in that form, and the body never contains \<^verbatim>\<open><script>\<close>.
\<close>

theorem esc_guards_html:
  \<open>esc s = concat (map esc_unit s)
   \<and> ch CHR ''<'' \<notin> set (esc s) \<and> ch CHR ''>'' \<notin> set (esc s) \<and> ch CHR 0x22 \<notin> set (esc s)
   \<and> inj esc
   \<and> (\<forall>name' email' phone' message'.
         (phone = [] \<longleftrightarrow> phone' = []) \<longrightarrow>
         filter is_markup (html_body name email phone message)
           = filter is_markup (html_body name' email' phone' message'))
   \<and> esc (lit ''<script>&"</script>'') = lit ''&lt;script&gt;&amp;&quot;&lt;/script&gt;''
   \<and> str_includes (html_body name email phone (a @ lit ''<script>&"</script>'' @ b))
         (lit ''&lt;script&gt;&amp;&quot;&lt;/script&gt;'')
   \<and> \<not> str_includes (html_body name email phone message) (lit ''<script>'')\<close>
proof -
  have "inj esc"
    by (rule injI) (rule esc_inject)
  moreover have
    \<open>str_includes (html_body name email phone (a @ lit ''<script>&"</script>'' @ b))
       (lit ''&lt;script&gt;&amp;&quot;&lt;/script&gt;'')\<close>
    using html_holds_message [of name email phone a \<open>lit ''<script>&"</script>''\<close> b]
    by (simp only: esc_script)
  ultimately show ?thesis
    using esc_concat [of s] esc_plain [of s] esc_script html_no_script [of name email phone message]
      html_markup [of phone _ name email message]
    by (intro conjI allI impI) (assumption | blast)+
qed

text \<open>Two submissions with a phone number, one of them full of markup.\<close>

theorem esc_guards_html_witness:
  \<open>(lit ''555 0100'' = [] \<longleftrightarrow> lit ''1'' = [])
   \<and> filter is_markup
        (html_body (lit ''<b>Jane</b>'') (lit ''"jane"@example.com'') (lit ''555 0100'')
           (lit ''<script>&"</script>''))
     = filter is_markup (html_body (lit ''Jane'') (lit ''jane@example.com'') (lit ''1'') (lit ''Hello''))\<close>
proof -
  have a: \<open>lit ''555 0100'' = [] \<longleftrightarrow> lit ''1'' = []\<close>
    by (simp add: lit_def)
  show ?thesis
    using esc_guards_html [of "[]" \<open>lit ''555 0100''\<close> \<open>lit ''<b>Jane</b>''\<close>
        \<open>lit ''"jane"@example.com''\<close> \<open>lit ''<script>&"</script>''\<close> "[]" "[]"] a
    by blast
qed

section \<open>C7: the mail request\<close>

lemma mail_payload_paths:
  "get_path (mail_payload name email html toAddress) [lit ''message'', lit ''toRecipients''] =
     Inr (JArray [JObject [(lit ''emailAddress'', JObject [(lit ''address'', toAddress)])]])"
  "get_path (mail_payload name email html toAddress) [lit ''message'', lit ''replyTo''] =
     Inr (JArray [JObject [(lit ''emailAddress'', JObject
            [(lit ''address'', JString email), (lit ''name'', JString name)])]])"
  "get_path (mail_payload name email html toAddress) [lit ''message'', lit ''subject''] =
     Inr (JString (lit ''SDS Contact: '' @ name @ lit '' <'' @ email @ lit ''>''))"
  "get_path (mail_payload name email html toAddress) [lit ''message'', lit ''body''] =
     Inr (JObject [(lit ''contentType'', JString (lit ''HTML'')), (lit ''content'', JString html)])"
  "get_path (mail_payload name email html toAddress) [lit ''saveToSentItems''] = Inr (JBool True)"
  by (simp_all add: mail_payload_def lit_eval)

text \<open>
  Claim C7. For a submission that passes validation, with a complete configuration, a
  credential object, a token and an encoded mailbox address, the run holds exactly one
  HTTP call, and the mail it carries has: one recipient, whose address is the configured
  mailbox; one reply-to entry, with the trimmed email of the submitter and the trimmed
  name; the subject \<^verbatim>\<open>SDS Contact: name <email>\<close>, which contains both; and
  \<^verbatim>\<open>saveToSentItems: true\<close>. When the mail API answers with a status from 200 to 299,
  the run is the token request, that one call and the response 200 with \<^verbatim>\<open>ok: true\<close>.
\<close>

theorem mail_request_shape:
  assumes "valid_submission w req name email phone message"
      and "configured w tenantId clientId clientSecret mailbox"
      and "ClientSecretCredential w (JString tenantId) (JString clientId) (JString clientSecret)
             = Inr credential"
      and "getToken w credential graph_scope = Inr (Some t)" and "token t \<noteq> []"
      and "encodeURIComponent w (JString mailbox) = Inr user"
  shows "sends (fst (handler w req)) =
           [Fetch (sendMail_url user)
              (fetch_init (token t) (JSON_stringify w
                 (mail_payload name email (html_body name email phone message) (JString mailbox))))]
         \<and> sends (fst (handler_logged w req)) =
           [Fetch (sendMail_url user)
              (fetch_init (token t) (JSON_stringify w
                 (mail_payload name email (html_body name email phone message) (JString mailbox))))]
         \<and> get_path (mail_payload name email (html_body name email phone message) (JString mailbox))
              [lit ''message'', lit ''toRecipients'']
            = Inr (JArray [JObject [(lit ''emailAddress'', JObject [(lit ''address'', JString mailbox)])]])
         \<and> get_path (mail_payload name email (html_body name email phone message) (JString mailbox))
              [lit ''message'', lit ''replyTo'']
            = Inr (JArray [JObject [(lit ''emailAddress'', JObject
                     [(lit ''address'', JString email), (lit ''name'', JString name)])]])
         \<and> get_path (mail_payload name email (html_body name email phone message) (JString mailbox))
              [lit ''message'', lit ''subject'']
            = Inr (JString (lit ''SDS Contact: '' @ name @ lit '' <'' @ email @ lit ''>''))
         \<and> str_includes (lit ''SDS Contact: '' @ name @ lit '' <'' @ email @ lit ''>'') name
         \<and> str_includes (lit ''SDS Contact: '' @ name @ lit '' <'' @ email @ lit ''>'') email
         \<and> get_path (mail_payload name email (html_body name email phone message) (JString mailbox))
              [lit ''saveToSentItems'']
            = Inr (JBool True)
         \<and> (\<forall>resp.
               fetch w (sendMail_url user)
                 (fetch_init (token t) (JSON_stringify w
                    (mail_payload name email (html_body name email phone message) (JString mailbox))))
               = Inr resp \<and> resp_ok resp \<longrightarrow>
               handler w req =
                 ([GetToken credential graph_scope,
                   Fetch (sendMail_url user)
                     (fetch_init (token t) (JSON_stringify w
                        (mail_payload name email (html_body name email phone message)
                           (JString mailbox)))),
                   SetRes (res 200 True (lit ''Thanks! Your message has been sent.''))],
                  Inr JUndefined)
               \<and> handler_logged w req =
                 ([Log LogInfo, Log LogInfo, GetToken credential graph_scope, Log LogInfo,
                   Log LogInfo,
                   Fetch (sendMail_url user)
                     (fetch_init (token t) (JSON_stringify w
                        (mail_payload name email (html_body name email phone message)
                           (JString mailbox)))),
                   Log LogInfo,
                   SetRes (res 200 True (lit ''Thanks! Your message has been sent.''))],
                  Inr JUndefined))"
proof -
  have s1: "str_includes (lit ''SDS Contact: '' @ name @ lit '' <'' @ email @ lit ''>'') name"
    by (rule str_includes_mid)
  have s2: "str_includes (lit ''SDS Contact: '' @ name @ lit '' <'' @ email @ lit ''>'') email"
    using str_includes_mid [of "lit ''SDS Contact: '' @ name @ lit '' <''" email "lit ''>''"]
    by simp
  have s3: "\<forall>resp.
               fetch w (sendMail_url user)
                 (fetch_init (token t) (JSON_stringify w
                    (mail_payload name email (html_body name email phone message) (JString mailbox))))
               = Inr resp \<and> resp_ok resp \<longrightarrow>
               handler w req =
                 ([GetToken credential graph_scope,
                   Fetch (sendMail_url user)
                     (fetch_init (token t) (JSON_stringify w
                        (mail_payload name email (html_body name email phone message)
                           (JString mailbox)))),
                   SetRes (res 200 True (lit ''Thanks! Your message has been sent.''))],
                  Inr JUndefined)
               \<and> handler_logged w req =
                 ([Log LogInfo, Log LogInfo, GetToken credential graph_scope, Log LogInfo,
                   Log LogInfo,
                   Fetch (sendMail_url user)
                     (fetch_init (token t) (JSON_stringify w
                        (mail_payload name email (html_body name email phone message)
                           (JString mailbox)))),
                   Log LogInfo,
                   SetRes (res 200 True (lit ''Thanks! Your message has been sent.''))],
                  Inr JUndefined)"
    by (intro allI impI conjI; elim conjE; (rule mail_answered(1,2) [OF assms]; assumption))
  show ?thesis
    using mail_sent [OF assms, unfolded holds_def] s1 s2 s3
      mail_payload_paths [of name email "html_body name email phone message" "JString mailbox"]
    by (intro conjI) assumption+
qed

text \<open>
  The example of the specification: Jane Doe, \<^verbatim>\<open>jane@example.com\<close>, no phone, the
  message \<^verbatim>\<open>Hello\<close>, a token and a mail API that answers 202.
\<close>

theorem mail_request_shape_witness:
  "valid_submission sample_world jane
     (lit ''Jane Doe'') (lit ''jane@example.com'') (lit '''') (lit ''Hello'')
   \<and> configured sample_world (lit ''contoso'') (lit ''app-1'') (lit ''s3cret'') (lit ''info@example.com'')
   \<and> ClientSecretCredential sample_world
        (JString (lit ''contoso'')) (JString (lit ''app-1'')) (JString (lit ''s3cret''))
      = Inr (Credential (JString (lit ''contoso'')) (JString (lit ''app-1'')) (JString (lit ''s3cret'')))
   \<and> getToken sample_world
        (Credential (JString (lit ''contoso'')) (JString (lit ''app-1'')) (JString (lit ''s3cret'')))
        graph_scope
      = Inr (Some \<lparr> token = lit ''tok'' \<rparr>)
   \<and> token \<lparr> token = lit ''tok'' \<rparr> \<noteq> []
   \<and> encodeURIComponent sample_world (JString (lit ''info@example.com''))
      = Inr (lit ''info%40example.com'')
   \<and> fetch sample_world (sendMail_url (lit ''info%40example.com''))
        (fetch_init (token \<lparr> token = lit ''tok'' \<rparr>) (JSON_stringify sample_world
           (mail_payload (lit ''Jane Doe'') (lit ''jane@example.com'')
              (html_body (lit ''Jane Doe'') (lit ''jane@example.com'') (lit '''') (lit ''Hello''))
              (JString (lit ''info@example.com'')))))
      = Inr \<lparr> resp_status = 202, resp_text = Inr (lit '''') \<rparr>
   \<and> resp_ok \<lparr> resp_status = 202, resp_text = Inr (lit '''') \<rparr>
   \<and> handler sample_world jane =
        ([GetToken
            (Credential (JString (lit ''contoso'')) (JString (lit ''app-1'')) (JString (lit ''s3cret'')))
            graph_scope,
          Fetch (sendMail_url (lit ''info%40example.com''))
            (fetch_init (token \<lparr> token = lit ''tok'' \<rparr>) (JSON_stringify sample_world
               (mail_payload (lit ''Jane Doe'') (lit ''jane@example.com'')
                  (html_body (lit ''Jane Doe'') (lit ''jane@example.com'') (lit '''') (lit ''Hello''))
                  (JString (lit ''info@example.com''))))),
          SetRes (res 200 True (lit ''Thanks! Your message has been sent.''))],
         Inr JUndefined)"
proof -
  have v: "valid_submission sample_world jane
     (lit ''Jane Doe'') (lit ''jane@example.com'') (lit '''') (lit ''Hello'')"
    by (rule jane_valid) (rule sample_world_fields)
  have cfg: "configured sample_world (lit ''contoso'') (lit ''app-1'') (lit ''s3cret'')
               (lit ''info@example.com'')"
    by (rule sample_configured) (rule sample_world_fields)
  have enc: "encodeURIComponent sample_world (JString (lit ''info@example.com''))
               = Inr (lit ''info%40example.com'')"
    by (simp only: sample_world_fields sample_encode)
  have f: "fetch sample_world u i = Inr \<lparr> resp_status = 202, resp_text = Inr (lit '''') \<rparr>" for u i
    by (simp add: sample_world_def)
  have ok: "resp_ok \<lparr> resp_status = 202, resp_text = Inr (lit '''') \<rparr>"
    by (simp add: resp_ok_def)
  note g = mail_request_shape [OF v cfg sample_world_fields(4) sample_world_fields(5) tok_nonempty enc]
  note g' = g [THEN conjunct2, THEN conjunct2, THEN conjunct2, THEN conjunct2, THEN conjunct2,
      THEN conjunct2, THEN conjunct2, THEN conjunct2, THEN spec, THEN mp, OF conjI [OF f ok]]
  show ?thesis
    using v cfg sample_world_fields(4,5) tok_nonempty enc f ok g'
    by (intro conjI) (elim conjE, assumption)+
qed

section \<open>C8: failure messages\<close>

lemma failures_generic:
  "holds (\<lambda>c. \<forall>s b m. responses (fst c) = [res s b m] \<and> s \<noteq> 200 \<longrightarrow>
            \<not> b \<and> m \<in> set failure_messages) (handler w req)"
  "holds (\<lambda>c. \<forall>s b m. responses (fst c) = [res s b m] \<and> s \<noteq> 200 \<longrightarrow>
            \<not> b \<and> m \<in> set failure_messages) (handler_logged w req)"
  unfolding handler_run handler_logged_run handler_try_def handler_logged_try_def Let_def
  by (simp_all add: sym_exec res_inject failure_messages_def)

lemma rejecting_world_fields:
  "toLowerCase rejecting_world = ascii_lower"
  "env rejecting_world = sample_env"
  "encodeURIComponent rejecting_world = ascii_encodeURIComponent"
  "ClientSecretCredential rejecting_world a b c = Inr (Credential a b c)"
  "getToken rejecting_world cr sc = Inr (Some \<lparr> token = lit ''tok'' \<rparr>)"
  \<open>fetch rejecting_world u i =
     Inr \<lparr> resp_status = 403, resp_text = Inr (lit ''{"error":{"code":"ErrorAccessDenied"}}'') \<rparr>\<close>
  by (simp_all add: rejecting_world_def sample_world_def)

text \<open>
  Claim C8, amended. Whatever the request and the outside world, the message of a
  response whose status is not 200 is one of four fixed strings and \<^verbatim>\<open>ok\<close> is false;
  the strings are constants of the source, so none is built from the client secret, the
  token, the body of the provider's answer or an error. When the mail API answers a valid
  submission with a status outside 200 to 299, such as 403, the response is 500 with the
  message \<^verbatim>\<open>Send failed. Please email jon@schneiderdrafting.com.\<close>, whatever the
  provider's body; that message, the one of the \<^verbatim>\<open>catch\<close>, contains the fallback address.
  (The message of the configuration error does not: see the counterexample.)
\<close>

theorem failure_messages_generic:
  "(\<forall>s b m. responses (fst (handler w req)) = [res s b m] \<and> s \<noteq> 200 \<longrightarrow>
       \<not> b \<and> m \<in> set failure_messages)
   \<and> (\<forall>s b m. responses (fst (handler_logged w req)) = [res s b m] \<and> s \<noteq> 200 \<longrightarrow>
       \<not> b \<and> m \<in> set failure_messages)
   \<and> (\<forall>name email phone message tenantId clientId clientSecret mailbox credential t user resp.
         valid_submission w req name email phone message
         \<and> configured w tenantId clientId clientSecret mailbox
         \<and> ClientSecretCredential w (JString tenantId) (JString clientId) (JString clientSecret)
             = Inr credential
         \<and> getToken w credential graph_scope = Inr (Some t) \<and> token t \<noteq> []
         \<and> encodeURIComponent w (JString mailbox) = Inr user
         \<and> fetch w (sendMail_url user)
              (fetch_init (token t) (JSON_stringify w
                 (mail_payload name email (html_body name email phone message) (JString mailbox))))
             = Inr resp
         \<and> \<not> resp_ok resp \<longrightarrow>
         responses (fst (handler w req)) =
           [res 500 False (lit ''Send failed. Please email jon@schneiderdrafting.com.'')]
         \<and> responses (fst (handler_logged w req)) =
           [res 500 False (lit ''Send failed. Please email jon@schneiderdrafting.com.'')])
   \<and> str_includes (lit ''Send failed. Please email jon@schneiderdrafting.com.'')
        (lit ''jon@schneiderdrafting.com'')"
proof (intro conjI allI impI; (elim conjE)?)
  show "str_includes (lit ''Send failed. Please email jon@schneiderdrafting.com.'')
        (lit ''jon@schneiderdrafting.com'')"
    by (simp add: lit_eval)
next
  fix s b m
  assume "responses (fst (handler w req)) = [res s b m]" and "s \<noteq> 200"
  then show "\<not> b" and "m \<in> set failure_messages"
    using failures_generic(1) [of w req, unfolded holds_def] by blast+
next
  fix s b m
  assume "responses (fst (handler_logged w req)) = [res s b m]" and "s \<noteq> 200"
  then show "\<not> b" and "m \<in> set failure_messages"
    using failures_generic(2) [of w req, unfolded holds_def] by blast+
next
  fix name email phone message tenantId clientId clientSecret mailbox credential t user resp
  assume a: "valid_submission w req name email phone message"
    "configured w tenantId clientId clientSecret mailbox"
    "ClientSecretCredential w (JString tenantId) (JString clientId) (JString clientSecret)
       = Inr credential"
    "getToken w credential graph_scope = Inr (Some t)" "token t \<noteq> []"
    "encodeURIComponent w (JString mailbox) = Inr user"
    "fetch w (sendMail_url user)
        (fetch_init (token t) (JSON_stringify w
           (mail_payload name email (html_body name email phone message) (JString mailbox))))
       = Inr resp"
    and n: "\<not> resp_ok resp"
  show "responses (fst (handler w req)) =
           [res 500 False (lit ''Send failed. Please email jon@schneiderdrafting.com.'')]"
    by (rule mail_answered(3) [OF a n])
  show "responses (fst (handler_logged w req)) =
           [res 500 False (lit ''Send failed. Please email jon@schneiderdrafting.com.'')]"
    using mail_answered(4) [OF a n] by simp
qed

text \<open>The sample submission in a world whose mail API answers 403 with an error body.\<close>

theorem failure_messages_generic_witness:
  \<open>valid_submission rejecting_world jane
     (lit ''Jane Doe'') (lit ''jane@example.com'') (lit '''') (lit ''Hello'')
   \<and> configured rejecting_world (lit ''contoso'') (lit ''app-1'') (lit ''s3cret'') (lit ''info@example.com'')
   \<and> ClientSecretCredential rejecting_world
        (JString (lit ''contoso'')) (JString (lit ''app-1'')) (JString (lit ''s3cret''))
      = Inr (Credential (JString (lit ''contoso'')) (JString (lit ''app-1'')) (JString (lit ''s3cret'')))
   \<and> getToken rejecting_world
        (Credential (JString (lit ''contoso'')) (JString (lit ''app-1'')) (JString (lit ''s3cret'')))
        graph_scope
      = Inr (Some \<lparr> token = lit ''tok'' \<rparr>)
   \<and> token \<lparr> token = lit ''tok'' \<rparr> \<noteq> []
   \<and> encodeURIComponent rejecting_world (JString (lit ''info@example.com''))
      = Inr (lit ''info%40example.com'')
   \<and> fetch rejecting_world (sendMail_url (lit ''info%40example.com''))
        (fetch_init (token \<lparr> token = lit ''tok'' \<rparr>) (JSON_stringify rejecting_world
           (mail_payload (lit ''Jane Doe'') (lit ''jane@example.com'')
              (html_body (lit ''Jane Doe'') (lit ''jane@example.com'') (lit '''') (lit ''Hello''))
              (JString (lit ''info@example.com'')))))
      = Inr \<lparr> resp_status = 403, resp_text = Inr (lit ''{"error":{"code":"ErrorAccessDenied"}}'') \<rparr>
   \<and> \<not> resp_ok \<lparr> resp_status = 403, resp_text = Inr (lit ''{"error":{"code":"ErrorAccessDenied"}}'') \<rparr>
   \<and> responses (fst (handler rejecting_world jane)) =
        [res 500 False (lit ''Send failed. Please email jon@schneiderdrafting.com.'')]
   \<and> responses (fst (handler_logged rejecting_world jane)) =
        [res 500 False (lit ''Send failed. Please email jon@schneiderdrafting.com.'')]
   \<and> (500 :: nat) \<noteq> 200
   \<and> lit ''Send failed. Please email jon@schneiderdrafting.com.'' \<in> set failure_messages\<close>
proof -
  have v: "valid_submission rejecting_world jane
     (lit ''Jane Doe'') (lit ''jane@example.com'') (lit '''') (lit ''Hello'')"
    by (rule jane_valid) (rule rejecting_world_fields)
  have cfg: "configured rejecting_world (lit ''contoso'') (lit ''app-1'') (lit ''s3cret'')
               (lit ''info@example.com'')"
    by (rule sample_configured) (rule rejecting_world_fields)
  have enc: "encodeURIComponent rejecting_world (JString (lit ''info@example.com''))
               = Inr (lit ''info%40example.com'')"
    by (simp only: rejecting_world_fields sample_encode)
  have no: \<open>\<not> resp_ok \<lparr> resp_status = 403,
                 resp_text = Inr (lit ''{"error":{"code":"ErrorAccessDenied"}}'') \<rparr>\<close>
    by (simp add: resp_ok_def)
  have ne: "(500 :: nat) \<noteq> 200"
    by simp
  note g = failure_messages_generic [of rejecting_world jane]
  note g3 = g [THEN conjunct2, THEN conjunct2, THEN conjunct1, THEN spec, THEN spec, THEN spec,
      THEN spec, THEN spec, THEN spec, THEN spec, THEN spec, THEN spec, THEN spec, THEN spec,
      THEN spec, THEN mp,
      OF conjI [OF v conjI [OF cfg conjI [OF rejecting_world_fields(4)
        conjI [OF rejecting_world_fields(5) conjI [OF tok_nonempty conjI [OF enc
        conjI [OF rejecting_world_fields(6) no]]]]]]]]
  note g1 = g [THEN conjunct1, THEN spec, THEN spec, THEN spec, THEN mp,
      OF conjI [OF g3 [THEN conjunct1] ne]]
  show ?thesis
    using v cfg rejecting_world_fields(4,5,6) tok_nonempty enc no g3 g1 ne
    by (intro conjI) (assumption | (elim conjE, assumption))+
qed

text \<open>
  The claim as stated fails for the configuration error: it is a 500 whose message,
  \<^verbatim>\<open>Mail service not configured.\<close>, holds no contact address.
\<close>

theorem failure_messages_counterexample:
  "handler unconfigured_world jane =
     ([Log LogError, SetRes (res 500 False (lit ''Mail service not configured.''))],
      Inr (res 500 False (lit ''Mail service not configured.'')))
   \<and> handler_logged unconfigured_world jane =
     ([Log LogInfo, Log LogInfo, Log LogError,
       SetRes (res 500 False (lit ''Mail service not configured.''))],
      Inr JUndefined)
   \<and> \<not> str_includes (lit ''Mail service not configured.'') (lit ''jon@schneiderdrafting.com'')
   \<and> ch CHR ''@'' \<notin> set (lit ''Mail service not configured.'')"
proof -
  have a: "valid_submission unconfigured_world jane
     (lit ''Jane Doe'') (lit ''jane@example.com'') (lit '''') (lit ''Hello'')"
    by (rule jane_valid) (simp add: unconfigured_world_def sample_world_def)
  have b: "\<not> truthy (process_env unconfigured_world (lit ''TENANT_ID''))
        \<or> \<not> truthy (process_env unconfigured_world (lit ''CLIENT_ID''))
        \<or> \<not> truthy (process_env unconfigured_world (lit ''CLIENT_SECRET''))
        \<or> \<not> truthy (process_env unconfigured_world (lit ''MAILBOX_ADDRESS''))"
    by (simp add: unconfigured_world_def process_env_def)
  have c: "\<not> str_includes (lit ''Mail service not configured.'') (lit ''jon@schneiderdrafting.com'')"
    "ch CHR ''@'' \<notin> set (lit ''Mail service not configured.'')"
    by (simp_all add: lit_eval)
  show ?thesis
    using unconfigured [OF a b] c by (intro conjI) assumption+
qed

section \<open>C9: a body that cannot be decoded\<close>

text \<open>
  Claim C9. When the content type does not announce form data, \<^verbatim>\<open>req.body\<close> is not an
  object and \<^verbatim>\<open>JSON.parse\<close> throws on the raw body, \<^verbatim>\<open>parseBody\<close> returns the empty
  object; the handler then answers 400 with \<^verbatim>\<open>ok: false\<close> for the missing fields, not
  500, and the run holds no token request and no HTTP call. (Form data never fails to
  decode: \<^verbatim>\<open>URLSearchParams\<close> accepts every string.)
\<close>

theorem undecodable_body_rejected:
  assumes "\<not> str_includes (toLowerCase w (or_str (headers req (lit ''content-type'')) (lit '''')))
               (lit ''application/x-www-form-urlencoded'')"
      and "\<not> (typeof (body req) = lit ''object'' \<and> truthy (body req))"
      and "JSON_parse w (or_str (rawBody req) (lit ''{}'')) = Inl e"
  shows "parseBody w req = JObject []
         \<and> handler w req =
           ([SetRes (res 400 False (lit ''Please include name, email, and message.''))],
            Inr (res 400 False (lit ''Please include name, email, and message.'')))
         \<and> token_calls (fst (handler w req)) = [] \<and> sends (fst (handler w req)) = []
         \<and> handler_logged w req =
           ([Log LogInfo, Log LogWarn,
             SetRes (res 400 False (lit ''Please include name, email, and message.''))],
            Inr JUndefined)
         \<and> token_calls (fst (handler_logged w req)) = []
         \<and> sends (fst (handler_logged w req)) = []"
proof -
  from assms have p: "parseBody w req = JObject []"
    by (auto simp: parseBody_def)
  have a: "not_honeypot w req"
    by (simp add: not_honeypot_def p)
  have b: "fields w req [] [] [] []"
    by (simp add: fields_def p trimmed_def js_or_def trim_empty)
  from missing_field_path [OF a b] p show ?thesis
    by (simp add: proj)
qed

text \<open>A \<^verbatim>\<open>text/plain\<close> body that is not JSON.\<close>

theorem undecodable_body_rejected_witness:
  "\<not> str_includes
       (toLowerCase sample_world (or_str (headers garbled_request (lit ''content-type'')) (lit '''')))
       (lit ''application/x-www-form-urlencoded'')
   \<and> \<not> (typeof (body garbled_request) = lit ''object'' \<and> truthy (body garbled_request))
   \<and> JSON_parse sample_world (or_str (rawBody garbled_request) (lit ''{}'')) = Inl SyntaxError
   \<and> parseBody sample_world garbled_request = JObject []
   \<and> handler sample_world garbled_request =
        ([SetRes (res 400 False (lit ''Please include name, email, and message.''))],
         Inr (res 400 False (lit ''Please include name, email, and message.'')))
   \<and> handler_logged sample_world garbled_request =
        ([Log LogInfo, Log LogWarn,
          SetRes (res 400 False (lit ''Please include name, email, and message.''))],
         Inr JUndefined)"
proof -
  have a: "\<not> str_includes
       (toLowerCase sample_world (or_str (headers garbled_request (lit ''content-type'')) (lit '''')))
       (lit ''application/x-www-form-urlencoded'')"
    by (simp add: garbled_request_def sample_world_def ascii_lower_def or_str_def lit_eval)
  have b: "\<not> (typeof (body garbled_request) = lit ''object'' \<and> truthy (body garbled_request))"
    by (simp add: garbled_request_def lit_eval)
  have c: "JSON_parse sample_world (or_str (rawBody garbled_request) (lit ''{}'')) = Inl SyntaxError"
    by (simp add: garbled_request_def sample_world_def or_str_def lit_eval)
  show ?thesis
    using undecodable_body_rejected [OF a b c] a b c by (intro conjI) (elim conjE, assumption)+
qed

section \<open>C10: what the honeypot test tests\<close>

lemma and_then_assoc:
  "and_then (and_then m k) k' = and_then m (\<lambda>x. and_then (k x) k')"
  by (simp add: comp_defs split: prod.split sum.split)

lemma and_then_returns: "and_then (returns x) k = k x"
  by (simp add: comp_defs split: prod.split)

lemma and_then_throws: "and_then (throws e) k = throws e"
  by (simp add: comp_defs)

lemma and_then_if:
  "and_then (if c then a else b) k = (if c then and_then a k else and_then b k)"
  by simp

lemma and_then_option:
  "and_then (case v of None \<Rightarrow> a | Some x \<Rightarrow> b x) k =
     (case v of None \<Rightarrow> and_then a k | Some x \<Rightarrow> and_then (b x) k)"
  by (cases v) simp_all

lemmas nested_exec = and_then_assoc and_then_returns and_then_throws and_then_if and_then_option

lemma contact_handler_run:
  "contact_handler w req = run [] (contact_handler_try w req) (\<lambda>err.
     and_then (emit (Log LogInfo)) (\<lambda>_.
     returns (res 500 False
       (lit ''We couldn'' @ [0x2019]
        @ lit ''t send your message. Please email info@schneiderdrafting.com.''))))"
  by (simp add: contact_handler_def run_def pre_def)

lemma honeypot_any_truthy:
  assumes "get (parseBody w req) (lit ''website'') = Inr v" and "truthy v"
  shows "handler w req =
           ([SetRes (res 200 True (lit ''Thanks!''))], Inr (res 200 True (lit ''Thanks!'')))"
    and "handler_logged w req =
           ([Log LogInfo, Log LogInfo, SetRes (res 200 True (lit ''Thanks!''))], Inr JUndefined)"
  unfolding handler_run handler_logged_run handler_try_def handler_logged_try_def Let_def
  using assms by (simp_all add: path_exec)

lemma contact_honeypot:
  assumes "req_text req = Inr raw"
      and "qs_truthy (map_of (querystring_parse w raw) (lit ''website''))"
  shows "contact_handler w req = ([], Inr (res 200 True (lit ''Thanks!'')))"
  unfolding contact_handler_run contact_handler_try_def Let_def
  using assms by (simp add: path_exec)

lemma contact_delivered:
  assumes "req_text req = Inr raw"
      and "\<not> qs_truthy (map_of (querystring_parse w raw) (lit ''website''))"
      and "sanitize (map_of (querystring_parse w raw) (lit ''name'')) \<noteq> []"
      and "sanitize (map_of (querystring_parse w raw) (lit ''email'')) \<noteq> []"
      and "acquireTokenByClientCredential w [graph_scope] = Inr (Some r)"
      and "accessToken r \<noteq> []"
      and "encodeURIComponent w (process_env w (lit ''MAILBOX_ADDRESS'')) = Inr user"
      and "fetch w (sendMail_url user)
             (fetch_init (accessToken r) (JSON_stringify w
                (buildMessage w
                   (sanitize (map_of (querystring_parse w raw) (lit ''name'')))
                   (sanitize (map_of (querystring_parse w raw) (lit ''email'')))
                   (sanitize (map_of (querystring_parse w raw) (lit ''phone'')))
                   (sanitize (map_of (querystring_parse w raw) (lit ''message''))))))
           = Inr resp"
      and "resp_ok resp"
  shows "contact_handler w req =
           ([AcquireToken [graph_scope],
             Fetch (sendMail_url user)
               (fetch_init (accessToken r) (JSON_stringify w
                  (buildMessage w
                     (sanitize (map_of (querystring_parse w raw) (lit ''name'')))
                     (sanitize (map_of (querystring_parse w raw) (lit ''email'')))
                     (sanitize (map_of (querystring_parse w raw) (lit ''phone'')))
                     (sanitize (map_of (querystring_parse w raw) (lit ''message''))))))],
            Inr (res 200 True (lit ''Thanks! Your message has been sent.'')))"
  unfolding contact_handler_run contact_handler_try_def sendMailViaGraph_def Let_def
  using assms by (simp add: path_exec nested_exec)

lemma jane_with_fields:
  assumes "toLowerCase w = ascii_lower"
  shows "get (parseBody w (jane_with v)) (lit ''website'') = Inr v"
    and "fields w (jane_with v) (lit ''Jane Doe'') (lit ''jane@example.com'') (lit '''') (lit ''Hello'')"
  using assms
  by (simp_all add: fields_def parseBody_json_request jane_with_def submission_def trimmed_def
      js_or_def trim_def isWhiteSpace_def lit_eval)

lemma form_world_fields:
  "encodeURIComponent form_world = ascii_encodeURIComponent"
  "process_env form_world (lit ''MAILBOX_ADDRESS'') = JString (lit ''info@example.com'')"
  "acquireTokenByClientCredential form_world ss = Inr (Some \<lparr> accessToken = lit ''tok'' \<rparr>)"
  "fetch form_world u i = Inr \<lparr> resp_status = 202, resp_text = Inr (lit '''') \<rparr>"
  by (simp_all add: form_world_def sample_world_def process_env_def sample_env_def lit_eval)

lemma form_world_parse:
  "map_of (querystring_parse form_world (lit ''website=+'')) (lit ''website'')
     = Some (QString (lit '' ''))"
  "map_of (querystring_parse form_world
       (lit ''name=Jane&email=jane@example.com&message=Hello&website='')) (lit ''website'')
     = Some (QString (lit ''''))"
  "sanitize (map_of (querystring_parse form_world
       (lit ''name=Jane&email=jane@example.com&message=Hello&website='')) (lit ''name'')) \<noteq> []"
  "sanitize (map_of (querystring_parse form_world
       (lit ''name=Jane&email=jane@example.com&message=Hello&website='')) (lit ''email'')) \<noteq> []"
  by (simp_all add: form_world_def sanitize_def isCRLF_def trim_def isWhiteSpace_def lit_eval)

text \<open>
  Claim C10. The honeypot test is \<^verbatim>\<open>if (data.website)\<close>: the truthiness of the value as
  parsed, not trimmed. A single space is truthy, and every truthy value gets the silent
  200. The empty string, the number 0 and \<^verbatim>\<open>false\<close> are falsy: such a submission goes on
  to validation, and a valid one in a working world is sent as mail and answered with
  \<^verbatim>\<open>Thanks! Your message has been sent.\<close> The handler that reads form data with
  \<^verbatim>\<open>querystring.parse\<close> tests the same way: a truthy \<^verbatim>\<open>website\<close> (a single space is)
  returns the silent 200 at once, an empty one lets a submission with a name and an email
  be sent.
\<close>

theorem honeypot_tests_truthiness:
  "truthy (JString (lit '' '')) \<and> \<not> truthy (JString (lit ''''))
   \<and> \<not> truthy (JNumber (JFin 0)) \<and> \<not> truthy (JBool False)
   \<and> (\<forall>v. get (parseBody w req) (lit ''website'') = Inr v \<and> truthy v \<longrightarrow>
         handler w req =
           ([SetRes (res 200 True (lit ''Thanks!''))], Inr (res 200 True (lit ''Thanks!'')))
         \<and> handler_logged w req =
           ([Log LogInfo, Log LogInfo, SetRes (res 200 True (lit ''Thanks!''))], Inr JUndefined))
   \<and> (\<forall>v name email phone message tenantId clientId clientSecret mailbox credential t user resp.
         get (parseBody w req) (lit ''website'') = Inr v \<and> \<not> truthy v
         \<and> fields w req name email phone message
         \<and> name \<noteq> [] \<and> email \<noteq> [] \<and> message \<noteq> [] \<and> length message \<le> 5000
         \<and> configured w tenantId clientId clientSecret mailbox
         \<and> ClientSecretCredential w (JString tenantId) (JString clientId) (JString clientSecret)
             = Inr credential
         \<and> getToken w credential graph_scope = Inr (Some t) \<and> token t \<noteq> []
         \<and> encodeURIComponent w (JString mailbox) = Inr user
         \<and> fetch w (sendMail_url user)
              (fetch_init (token t) (JSON_stringify w
                 (mail_payload name email (html_body name email phone message) (JString mailbox))))
             = Inr resp
         \<and> resp_ok resp \<longrightarrow>
         handler w req =
           ([GetToken credential graph_scope,
             Fetch (sendMail_url user)
               (fetch_init (token t) (JSON_stringify w
                  (mail_payload name email (html_body name email phone message) (JString mailbox)))),
             SetRes (res 200 True (lit ''Thanks! Your message has been sent.''))],
            Inr JUndefined)
         \<and> handler_logged w req =
           ([Log LogInfo, Log LogInfo, GetToken credential graph_scope, Log LogInfo, Log LogInfo,
             Fetch (sendMail_url user)
               (fetch_init (token t) (JSON_stringify w
                  (mail_payload name email (html_body name email phone message) (JString mailbox)))),
             Log LogInfo,
             SetRes (res 200 True (lit ''Thanks! Your message has been sent.''))],
            Inr JUndefined))
   \<and> qs_truthy (Some (QString (lit '' ''))) \<and> \<not> qs_truthy (Some (QString (lit '''')))
   \<and> (\<forall>raw. req_text hreq = Inr raw
         \<and> qs_truthy (map_of (querystring_parse w raw) (lit ''website'')) \<longrightarrow>
         contact_handler w hreq = ([], Inr (res 200 True (lit ''Thanks!''))))
   \<and> (\<forall>raw r user resp.
         req_text hreq = Inr raw
         \<and> \<not> qs_truthy (map_of (querystring_parse w raw) (lit ''website''))
         \<and> sanitize (map_of (querystring_parse w raw) (lit ''name'')) \<noteq> []
         \<and> sanitize (map_of (querystring_parse w raw) (lit ''email'')) \<noteq> []
         \<and> acquireTokenByClientCredential w [graph_scope] = Inr (Some r)
         \<and> accessToken r \<noteq> []
         \<and> encodeURIComponent w (process_env w (lit ''MAILBOX_ADDRESS'')) = Inr user
         \<and> fetch w (sendMail_url user)
              (fetch_init (accessToken r) (JSON_stringify w
                 (buildMessage w
                    (sanitize (map_of (querystring_parse w raw) (lit ''name'')))
                    (sanitize (map_of (querystring_parse w raw) (lit ''email'')))
                    (sanitize (map_of (querystring_parse w raw) (lit ''phone'')))
                    (sanitize (map_of (querystring_parse w raw) (lit ''message''))))))
             = Inr resp
         \<and> resp_ok resp \<longrightarrow>
         contact_handler w hreq =
           ([AcquireToken [graph_scope],
             Fetch (sendMail_url user)
               (fetch_init (accessToken r) (JSON_stringify w
                  (buildMessage w
                     (sanitize (map_of (querystring_parse w raw) (lit ''name'')))
                     (sanitize (map_of (querystring_parse w raw) (lit ''email'')))
                     (sanitize (map_of (querystring_parse w raw) (lit ''phone'')))
                     (sanitize (map_of (querystring_parse w raw) (lit ''message''))))))],
            Inr (res 200 True (lit ''Thanks! Your message has been sent.''))))"
proof (intro conjI allI impI; (elim conjE)?)
  show "truthy (JString (lit '' ''))" "\<not> truthy (JString (lit ''''))"
    "\<not> truthy (JNumber (JFin 0))" "\<not> truthy (JBool False)"
    "qs_truthy (Some (QString (lit '' '')))" "\<not> qs_truthy (Some (QString (lit '''')))"
    by (simp_all add: lit_def)
next
  fix v
  assume "get (parseBody w req) (lit ''website'') = Inr v" and "truthy v"
  then show "handler w req =
           ([SetRes (res 200 True (lit ''Thanks!''))], Inr (res 200 True (lit ''Thanks!'')))"
    and "handler_logged w req =
           ([Log LogInfo, Log LogInfo, SetRes (res 200 True (lit ''Thanks!''))], Inr JUndefined)"
    by (rule honeypot_any_truthy)+
next
  fix v name email phone message tenantId clientId clientSecret mailbox credential t user resp
  assume h: "get (parseBody w req) (lit ''website'') = Inr v" "\<not> truthy v"
    and f: "fields w req name email phone message"
      "name \<noteq> []" "email \<noteq> []" "message \<noteq> []" "length message \<le> 5000"
    and a: "configured w tenantId clientId clientSecret mailbox"
      "ClientSecretCredential w (JString tenantId) (JString clientId) (JString clientSecret)
         = Inr credential"
      "getToken w credential graph_scope = Inr (Some t)" "token t \<noteq> []"
      "encodeURIComponent w (JString mailbox) = Inr user"
      "fetch w (sendMail_url user)
          (fetch_init (token t) (JSON_stringify w
             (mail_payload name email (html_body name email phone message) (JString mailbox))))
         = Inr resp"
    and ok: "resp_ok resp"
  from h f have valid: "valid_submission w req name email phone message"
    by (simp add: valid_submission_def not_honeypot_def)
  show "handler w req =
           ([GetToken credential graph_scope,
             Fetch (sendMail_url user)
               (fetch_init (token t) (JSON_stringify w
                  (mail_payload name email (html_body name email phone message) (JString mailbox)))),
             SetRes (res 200 True (lit ''Thanks! Your message has been sent.''))],
            Inr JUndefined)"
    by (rule mail_answered(1) [OF valid a ok])
  show "handler_logged w req =
           ([Log LogInfo, Log LogInfo, GetToken credential graph_scope, Log LogInfo, Log LogInfo,
             Fetch (sendMail_url user)
               (fetch_init (token t) (JSON_stringify w
                  (mail_payload name email (html_body name email phone message) (JString mailbox)))),
             Log LogInfo,
             SetRes (res 200 True (lit ''Thanks! Your message has been sent.''))],
            Inr JUndefined)"
    by (rule mail_answered(2) [OF valid a ok])
next
  fix raw
  assume "req_text hreq = Inr raw"
    and "qs_truthy (map_of (querystring_parse w raw) (lit ''website''))"
  then show "contact_handler w hreq = ([], Inr (res 200 True (lit ''Thanks!'')))"
    by (rule contact_honeypot)
next
  fix raw r user resp
  assume "req_text hreq = Inr raw"
    and "\<not> qs_truthy (map_of (querystring_parse w raw) (lit ''website''))"
    and "sanitize (map_of (querystring_parse w raw) (lit ''name'')) \<noteq> []"
    and "sanitize (map_of (querystring_parse w raw) (lit ''email'')) \<noteq> []"
    and "acquireTokenByClientCredential w [graph_scope] = Inr (Some r)"
    and "accessToken r \<noteq> []"
    and "encodeURIComponent w (process_env w (lit ''MAILBOX_ADDRESS'')) = Inr user"
    and "fetch w (sendMail_url user)
              (fetch_init (accessToken r) (JSON_stringify w
                 (buildMessage w
                    (sanitize (map_of (querystring_parse w raw) (lit ''name'')))
                    (sanitize (map_of (querystring_parse w raw) (lit ''email'')))
                    (sanitize (map_of (querystring_parse w raw) (lit ''phone'')))
                    (sanitize (map_of (querystring_parse w raw) (lit ''message''))))))
             = Inr resp"
    and "resp_ok resp"
  then show "contact_handler w hreq =
           ([AcquireToken [graph_scope],
             Fetch (sendMail_url user)
               (fetch_init (accessToken r) (JSON_stringify w
                  (buildMessage w
                     (sanitize (map_of (querystring_parse w raw) (lit ''name'')))
                     (sanitize (map_of (querystring_parse w raw) (lit ''email'')))
                     (sanitize (map_of (querystring_parse w raw) (lit ''phone'')))
                     (sanitize (map_of (querystring_parse w raw) (lit ''message''))))))],
            Inr (res 200 True (lit ''Thanks! Your message has been sent.'')))"
    by (rule contact_delivered)
qed

text \<open>
  The sample submission with \<^verbatim>\<open>website\<close> set to a single space, to the empty string, to
  0 and to \<^verbatim>\<open>false\<close>; and two form bodies, one with \<^verbatim>\<open>website=+\<close> and one with an empty
  \<^verbatim>\<open>website\<close>.
\<close>

theorem honeypot_tests_truthiness_witness:
  "get (parseBody sample_world (jane_with (JString (lit '' '')))) (lit ''website'')
     = Inr (JString (lit '' ''))
   \<and> truthy (JString (lit '' ''))
   \<and> handler sample_world (jane_with (JString (lit '' ''))) =
        ([SetRes (res 200 True (lit ''Thanks!''))], Inr (res 200 True (lit ''Thanks!'')))
   \<and> get (parseBody sample_world (jane_with (JString (lit '''')))) (lit ''website'')
     = Inr (JString (lit ''''))
   \<and> \<not> truthy (JString (lit ''''))
   \<and> fields sample_world (jane_with (JString (lit '''')))
        (lit ''Jane Doe'') (lit ''jane@example.com'') (lit '''') (lit ''Hello'')
   \<and> lit ''Jane Doe'' \<noteq> [] \<and> lit ''jane@example.com'' \<noteq> [] \<and> lit ''Hello'' \<noteq> []
   \<and> length (lit ''Hello'') \<le> 5000
   \<and> configured sample_world (lit ''contoso'') (lit ''app-1'') (lit ''s3cret'') (lit ''info@example.com'')
   \<and> ClientSecretCredential sample_world
        (JString (lit ''contoso'')) (JString (lit ''app-1'')) (JString (lit ''s3cret''))
      = Inr (Credential (JString (lit ''contoso'')) (JString (lit ''app-1'')) (JString (lit ''s3cret'')))
   \<and> getToken sample_world
        (Credential (JString (lit ''contoso'')) (JString (lit ''app-1'')) (JString (lit ''s3cret'')))
        graph_scope
      = Inr (Some \<lparr> token = lit ''tok'' \<rparr>)
   \<and> token \<lparr> token = lit ''tok'' \<rparr> \<noteq> []
   \<and> encodeURIComponent sample_world (JString (lit ''info@example.com''))
      = Inr (lit ''info%40example.com'')
   \<and> fetch sample_world (sendMail_url (lit ''info%40example.com''))
        (fetch_init (token \<lparr> token = lit ''tok'' \<rparr>) (JSON_stringify sample_world
           (mail_payload (lit ''Jane Doe'') (lit ''jane@example.com'')
              (html_body (lit ''Jane Doe'') (lit ''jane@example.com'') (lit '''') (lit ''Hello''))
              (JString (lit ''info@example.com'')))))
      = Inr \<lparr> resp_status = 202, resp_text = Inr (lit '''') \<rparr>
   \<and> resp_ok \<lparr> resp_status = 202, resp_text = Inr (lit '''') \<rparr>
   \<and> handler sample_world (jane_with (JString (lit ''''))) =
        ([GetToken
            (Credential (JString (lit ''contoso'')) (JString (lit ''app-1'')) (JString (lit ''s3cret'')))
            graph_scope,
          Fetch (sendMail_url (lit ''info%40example.com''))
            (fetch_init (token \<lparr> token = lit ''tok'' \<rparr>) (JSON_stringify sample_world
               (mail_payload (lit ''Jane Doe'') (lit ''jane@example.com'')
                  (html_body (lit ''Jane Doe'') (lit ''jane@example.com'') (lit '''') (lit ''Hello''))
                  (JString (lit ''info@example.com''))))),
          SetRes (res 200 True (lit ''Thanks! Your message has been sent.''))],
         Inr JUndefined)
   \<and> handler sample_world (jane_with (JNumber (JFin 0))) =
        handler sample_world (jane_with (JString (lit '''')))
   \<and> handler sample_world (jane_with (JBool False)) =
        handler sample_world (jane_with (JString (lit '''')))
   \<and> req_text (form_request (lit ''website=+'')) = Inr (lit ''website=+'')
   \<and> qs_truthy (map_of (querystring_parse form_world (lit ''website=+'')) (lit ''website''))
   \<and> contact_handler form_world (form_request (lit ''website=+'')) =
        ([], Inr (res 200 True (lit ''Thanks!'')))
   \<and> \<not> qs_truthy (map_of (querystring_parse form_world
         (lit ''name=Jane&email=jane@example.com&message=Hello&website='')) (lit ''website''))
   \<and> snd (contact_handler form_world
         (form_request (lit ''name=Jane&email=jane@example.com&message=Hello&website=''))) =
        Inr (res 200 True (lit ''Thanks! Your message has been sent.''))
   \<and> length (sends (fst (contact_handler form_world
         (form_request (lit ''name=Jane&email=jane@example.com&message=Hello&website=''))))) = 1"
proof -
  note sw = sample_world_fields
  have tr: "truthy (JString (lit '' ''))" "\<not> truthy (JString (lit ''''))"
    "\<not> truthy (JNumber (JFin 0))" "\<not> truthy (JBool False)"
    by (simp_all add: lit_def)
  have ne: "lit ''Jane Doe'' \<noteq> []" "lit ''jane@example.com'' \<noteq> []" "lit ''Hello'' \<noteq> []"
    "length (lit ''Hello'') \<le> 5000"
    by (simp_all add: lit_def)
  have cfg: "configured sample_world (lit ''contoso'') (lit ''app-1'') (lit ''s3cret'')
               (lit ''info@example.com'')"
    by (rule sample_configured) (rule sw)
  have enc: "encodeURIComponent sample_world (JString (lit ''info@example.com''))
               = Inr (lit ''info%40example.com'')"
    by (simp only: sw sample_encode)
  have f: "fetch sample_world u i = Inr \<lparr> resp_status = 202, resp_text = Inr (lit '''') \<rparr>" for u i
    by (simp add: sample_world_def)
  have ok: "resp_ok \<lparr> resp_status = 202, resp_text = Inr (lit '''') \<rparr>"
    by (simp add: resp_ok_def)
  note jw = jane_with_fields [OF sw(1)]
  have thanks: "handler sample_world (jane_with (JString (lit '' ''))) =
        ([SetRes (res 200 True (lit ''Thanks!''))], Inr (res 200 True (lit ''Thanks!'')))"
    using honeypot_tests_truthiness [of sample_world "jane_with (JString (lit '' ''))",
        THEN conjunct2, THEN conjunct2, THEN conjunct2, THEN conjunct2, THEN conjunct1,
        THEN spec, THEN mp, OF conjI [OF jw(1) tr(1)]]
    by (rule conjunct1)
  have sent: "handler sample_world (jane_with v) =
        ([GetToken
            (Credential (JString (lit ''contoso'')) (JString (lit ''app-1'')) (JString (lit ''s3cret'')))
            graph_scope,
          Fetch (sendMail_url (lit ''info%40example.com''))
            (fetch_init (token \<lparr> token = lit ''tok'' \<rparr>) (JSON_stringify sample_world
               (mail_payload (lit ''Jane Doe'') (lit ''jane@example.com'')
                  (html_body (lit ''Jane Doe'') (lit ''jane@example.com'') (lit '''') (lit ''Hello''))
                  (JString (lit ''info@example.com''))))),
          SetRes (res 200 True (lit ''Thanks! Your message has been sent.''))],
         Inr JUndefined)" if "\<not> truthy v" for v
    using honeypot_tests_truthiness [of sample_world "jane_with v",
        THEN conjunct2, THEN conjunct2, THEN conjunct2, THEN conjunct2, THEN conjunct2,
        THEN conjunct1,
        THEN spec, THEN spec, THEN spec, THEN spec, THEN spec, THEN spec, THEN spec, THEN spec,
        THEN spec, THEN spec, THEN spec, THEN spec, THEN spec, THEN mp,
        OF conjI [OF jw(1) conjI [OF that conjI [OF jw(2) conjI [OF ne(1) conjI [OF ne(2)
          conjI [OF ne(3) conjI [OF ne(4) conjI [OF cfg conjI [OF sw(4) conjI [OF sw(5)
          conjI [OF tok_nonempty conjI [OF enc conjI [OF f ok]]]]]]]]]]]]]]
    by (rule conjunct1)
  have rt: "req_text (form_request raw) = Inr raw" for raw
    by (simp add: form_request_def)
  have q1: "qs_truthy (map_of (querystring_parse form_world (lit ''website=+'')) (lit ''website''))"
    unfolding form_world_parse by (simp add: lit_def)
  have q2: "\<not> qs_truthy (map_of (querystring_parse form_world
         (lit ''name=Jane&email=jane@example.com&message=Hello&website='')) (lit ''website''))"
    unfolding form_world_parse by (simp add: lit_def)
  have fenc: "encodeURIComponent form_world (process_env form_world (lit ''MAILBOX_ADDRESS''))
                = Inr (lit ''info%40example.com'')"
    by (simp only: form_world_fields sample_encode)
  have ftok: "accessToken \<lparr> accessToken = lit ''tok'' \<rparr> \<noteq> []"
    by (simp add: lit_def)
  have c1: "contact_handler form_world (form_request (lit ''website=+'')) =
        ([], Inr (res 200 True (lit ''Thanks!'')))"
    by (rule honeypot_tests_truthiness [of form_world _ "form_request (lit ''website=+'')",
        THEN conjunct2, THEN conjunct2, THEN conjunct2, THEN conjunct2, THEN conjunct2,
        THEN conjunct2, THEN conjunct2, THEN conjunct2, THEN conjunct1,
        THEN spec, THEN mp, OF conjI [OF rt q1]])
  note c2 = honeypot_tests_truthiness [of form_world _
        "form_request (lit ''name=Jane&email=jane@example.com&message=Hello&website='')",
        THEN conjunct2, THEN conjunct2, THEN conjunct2, THEN conjunct2, THEN conjunct2,
        THEN conjunct2, THEN conjunct2, THEN conjunct2, THEN conjunct2,
        THEN spec, THEN spec, THEN spec, THEN spec, THEN mp,
        OF conjI [OF rt conjI [OF q2 conjI [OF form_world_parse(3) conjI [OF form_world_parse(4)
          conjI [OF form_world_fields(3) conjI [OF ftok conjI [OF fenc
          conjI [OF form_world_fields(4) ok]]]]]]]]]
  have c2a: "snd (contact_handler form_world
         (form_request (lit ''name=Jane&email=jane@example.com&message=Hello&website=''))) =
        Inr (res 200 True (lit ''Thanks! Your message has been sent.''))"
    by (simp add: c2)
  have c2b: "length (sends (fst (contact_handler form_world
         (form_request (lit ''name=Jane&email=jane@example.com&message=Hello&website=''))))) = 1"
    by (simp add: c2 proj)
  show ?thesis
    using jw [of "JString (lit '' '')"] jw [of "JString (lit '''')"] tr ne cfg sw(4,5) tok_nonempty
      enc f ok thanks sent [OF tr(2)] sent [OF tr(3), folded sent [OF tr(2)]]
      sent [OF tr(4), folded sent [OF tr(2)]] rt q1 q2 c1 c2a c2b
    by (intro conjI) assumption+
qed

end
